theory Spec2Isabelle
  imports Main "HOL-Library.Sublist"
begin

section \<open>The workspace initialiser \<^verbatim>\<open>scripts/init.py\<close>\<close>

text \<open>
  The script clones or updates a list of repositories of one GitHub organisation. All of
  its behaviour is a sequence of calls to external programs (\<^verbatim>\<open>ssh\<close>, \<^verbatim>\<open>git\<close>) and of
  printed lines. The embedding makes both explicit: every function of the class
  \<^verbatim>\<open>ProjectInitializer\<close> takes the state of the run (the calls made so far and the lines
  printed so far) and returns the new one. What the external programs and the file system
  answer is not decided by the script, so it is a parameter, the \<open>world\<close>: a function of the
  calls made so far. A theorem about all worlds therefore covers every behaviour of
  \<^verbatim>\<open>git\<close>, \<^verbatim>\<open>ssh\<close> and the file system, whatever else runs beside the task.
\<close>

subsection \<open>Text\<close>

text \<open>
  A Python \<^verbatim>\<open>str\<close> is modelled as a \<^typ>\<open>string\<close>, its characters being the code points
  below 256. \<^verbatim>\<open>str.lower\<close> changes, in that range, \<^verbatim>\<open>A\<close> to \<^verbatim>\<open>Z\<close> and the
  letters \<^verbatim>\<open>U+00C0\<close> to \<^verbatim>\<open>U+00DE\<close> except the multiplication sign \<^verbatim>\<open>U+00D7\<close>;
  \<^verbatim>\<open>str.strip\<close> removes leading and trailing characters for which \<^verbatim>\<open>str.isspace\<close>
  holds.
\<close>

definition lower_char :: "char \<Rightarrow> char" where
  "lower_char c =
     (let n = (of_char c :: nat) in
      if (65 \<le> n \<and> n \<le> 90) \<or> (192 \<le> n \<and> n \<le> 222 \<and> n \<noteq> 215)
      then char_of (n + 32) else c)"

definition lower :: "string \<Rightarrow> string" where
  "lower s = map lower_char s"

definition isspace :: "char \<Rightarrow> bool" where
  "isspace c =
     (let n = (of_char c :: nat) in
      (9 \<le> n \<and> n \<le> 13) \<or> (28 \<le> n \<and> n \<le> 32) \<or> n = 133 \<or> n = 160)"

definition strip :: "string \<Rightarrow> string" where
  "strip s = rev (dropWhile isspace (rev (dropWhile isspace s)))"

text \<open>
  The pipes of a subprocess deliver bytes. \<^verbatim>\<open>bytes.decode()\<close> either gives the text
  or raises \<^verbatim>\<open>UnicodeDecodeError\<close>; the model keeps exactly that distinction.
\<close>

datatype exn = OSError | ValueError | UnicodeDecodeError | NameError

datatype bytes = Utf8 string | Invalid_utf8

fun decode :: "bytes \<Rightarrow> exn + string" where
  "decode (Utf8 s) = Inr s"
| "decode Invalid_utf8 = Inl UnicodeDecodeError"

subsection \<open>The world and the state of a run\<close>

text \<open>
  \<open>Exec argv cwd\<close> is one \<^verbatim>\<open>asyncio.create_subprocess_exec(*argv, cwd=cwd)\<close> followed
  by \<^verbatim>\<open>communicate()\<close>; \<open>Makedirs p\<close> is \<^verbatim>\<open>os.makedirs(p, exist_ok=True)\<close>.
\<close>

datatype action = Makedirs string | Exec "string list" "string option"

record process =
  returncode :: int
  stdout :: bytes
  stderr :: bytes

text \<open>
  \<open>subprocess w h argv cwd\<close> is what launching and awaiting the program gives after the
  calls \<open>h\<close>: an exception (every exception these calls raise is an \<^verbatim>\<open>Exception\<close>), or
  the finished process. \<open>path_exists\<close> is \<^verbatim>\<open>Path.exists\<close>, \<open>resolve\<close> is
  \<^verbatim>\<open>Path(p).resolve()\<close> and \<open>joinpath\<close> is the operator \<^verbatim>\<open>/\<close> of \<^verbatim>\<open>pathlib\<close>;
  paths are kept as the strings \<^verbatim>\<open>str(path)\<close>.
\<close>

record world =
  resolve :: "string \<Rightarrow> string"
  joinpath :: "string \<Rightarrow> string \<Rightarrow> string"
  path_exists :: "action list \<Rightarrow> string \<Rightarrow> bool"
  subprocess :: "action list \<Rightarrow> string list \<Rightarrow> string option \<Rightarrow> exn + process"

text \<open>The lines the script prints, one constructor for each \<^verbatim>\<open>print\<close> of the source.\<close>

datatype msg =
    Initializing_project string
  | Verifying_access
  | Access_failed
  | Check_ssh_configuration
  | Access_verified
  | Initialization_complete
  | Error_verifying exn
  | Error_updating exn
  | Error_cloning exn
  | Processing string
  | Exists_verifying string
  | Updating string
  | Updated_ok string
  | Update_failed string
  | Remote_mismatch string
  | Expected string
  | Check_manually
  | Cloning string
  | Cloned_ok string
  | Clone_failed string
  | Configuration_header
  | Configuration_dump

record state =
  trace :: "action list"
  out :: "msg list"

text \<open>
  \<^verbatim>\<open>os.makedirs(base_dir, exist_ok=True)\<close> is called on the resolved parent of the working
  directory, a directory that exists, so it is recorded as a call that does not raise.
  Exceptions that are not an \<^verbatim>\<open>Exception\<close> (a keyboard interrupt, a cancellation) are
  outside the model.
\<close>

definition print :: "msg \<Rightarrow> state \<Rightarrow> state" where
  "print m s = s\<lparr>out := out s @ [m]\<rparr>"

definition makedirs :: "string \<Rightarrow> state \<Rightarrow> state" where
  "makedirs p s = s\<lparr>trace := trace s @ [Makedirs p]\<rparr>"

definition run_subprocess ::
  "world \<Rightarrow> string list \<Rightarrow> string option \<Rightarrow> state \<Rightarrow> (exn + process) \<times> state" where
  "run_subprocess w argv cwd s =
     (subprocess w (trace s) argv cwd, s\<lparr>trace := trace s @ [Exec argv cwd]\<rparr>)"

subsection \<open>The class \<^verbatim>\<open>ProjectInitializer\<close>\<close>

text \<open>
  A repository descriptor is a dictionary of which only the key \<^verbatim>\<open>name\<close> is ever read;
  the other keys are the extension of the record.
\<close>

record repo =
  name :: string

record 'm initializer =
  project_name :: string
  repo_org :: string
  repositories :: "'m repo_scheme list"
  base_dir :: string
  semaphore :: nat

definition ProjectInitializer ::
  "world \<Rightarrow> string \<Rightarrow> string \<Rightarrow> 'm repo_scheme list \<Rightarrow> 'm initializer" where
  "ProjectInitializer w pn org repos =
     \<lparr>project_name = pn, repo_org = org, repositories = repos,
      base_dir = resolve w ''..'', semaphore = 5\<rparr>"

text \<open>
  A \<^verbatim>\<open>try\<close> block is a function that returns the exception or the value, together with
  the state reached; the \<^verbatim>\<open>except Exception\<close> clause is the function that wraps it.
\<close>

definition verify_git_ssh_try :: "world \<Rightarrow> state \<Rightarrow> (exn + bool) \<times> state" where
  "verify_git_ssh_try w s =
     (case run_subprocess w [''ssh'', ''-T'', ''git@github.com''] None s of
        (Inl e, s1) \<Rightarrow> (Inl e, s1)
      | (Inr p, s1) \<Rightarrow>
          (case decode (stderr p) of
             Inl e \<Rightarrow> (Inl e, s1)
           | Inr t \<Rightarrow> (Inr (sublist ''successfully authenticated'' (lower t)), s1)))"

definition verify_git_ssh :: "world \<Rightarrow> state \<Rightarrow> bool \<times> state" where
  "verify_git_ssh w s =
     (case verify_git_ssh_try w s of
        (Inl e, s1) \<Rightarrow> (False, print (Error_verifying e) s1)
      | (Inr b, s1) \<Rightarrow> (b, s1))"

definition check_remote_try ::
  "world \<Rightarrow> string \<Rightarrow> string \<Rightarrow> state \<Rightarrow> (exn + bool) \<times> state" where
  "check_remote_try w repo_path expected_remote s =
     (case run_subprocess w [''git'', ''remote'', ''get-url'', ''origin''] (Some repo_path) s of
        (Inl e, s1) \<Rightarrow> (Inl e, s1)
      | (Inr p, s1) \<Rightarrow>
          (case decode (stdout p) of
             Inl e \<Rightarrow> (Inl e, s1)
           | Inr t \<Rightarrow> (Inr (strip t = expected_remote), s1)))"

definition check_remote :: "world \<Rightarrow> string \<Rightarrow> string \<Rightarrow> state \<Rightarrow> bool \<times> state" where
  "check_remote w repo_path expected_remote s =
     (case check_remote_try w repo_path expected_remote s of
        (Inl e, s1) \<Rightarrow> (False, s1)
      | (Inr b, s1) \<Rightarrow> (b, s1))"

definition update_repository_try :: "world \<Rightarrow> string \<Rightarrow> state \<Rightarrow> (exn + bool) \<times> state" where
  "update_repository_try w repo_path s =
     (case run_subprocess w [''git'', ''fetch''] (Some repo_path) s of
        (Inl e, s1) \<Rightarrow> (Inl e, s1)
      | (Inr fetch_process, s1) \<Rightarrow>
          (case run_subprocess w [''git'', ''rev-parse'', ''--abbrev-ref'', ''HEAD'']
                  (Some repo_path) s1 of
             (Inl e, s2) \<Rightarrow> (Inl e, s2)
           | (Inr branch_process, s2) \<Rightarrow>
               (case decode (stdout branch_process) of
                  Inl e \<Rightarrow> (Inl e, s2)
                | Inr t \<Rightarrow>
                    (let current_branch = strip t in
                     case run_subprocess w [''git'', ''pull'', ''origin'', current_branch]
                            (Some repo_path) s2 of
                       (Inl e, s3) \<Rightarrow> (Inl e, s3)
                     | (Inr pull_process, s3) \<Rightarrow> (Inr True, s3)))))"

definition update_repository :: "world \<Rightarrow> string \<Rightarrow> state \<Rightarrow> bool \<times> state" where
  "update_repository w repo_path s =
     (case update_repository_try w repo_path s of
        (Inl e, s1) \<Rightarrow> (False, print (Error_updating e) s1)
      | (Inr b, s1) \<Rightarrow> (b, s1))"

definition clone_repository_try ::
  "world \<Rightarrow> 'm initializer \<Rightarrow> string \<Rightarrow> string \<Rightarrow> state \<Rightarrow> (exn + bool) \<times> state" where
  "clone_repository_try w self repo_name repo_path s =
     (case run_subprocess w
             [''git'', ''clone'',
              ''git@github.com:'' @ repo_org self @ ''/'' @ repo_name @ ''.git'',
              repo_path] None s of
        (Inl e, s1) \<Rightarrow> (Inl e, s1)
      | (Inr p, s1) \<Rightarrow> (Inr True, s1))"

definition clone_repository ::
  "world \<Rightarrow> 'm initializer \<Rightarrow> string \<Rightarrow> string \<Rightarrow> state \<Rightarrow> bool \<times> state" where
  "clone_repository w self repo_name repo_path s =
     (case clone_repository_try w self repo_name repo_path s of
        (Inl e, s1) \<Rightarrow> (False, print (Error_cloning e) s1)
      | (Inr b, s1) \<Rightarrow> (b, s1))"

text \<open>
  \<^verbatim>\<open>process_repository\<close>, the body of \<^verbatim>\<open>async with self.semaphore\<close>. Taking and
  giving back the semaphore changes nothing for a task seen alone; the tasks running side
  by side are the subject of the last section.
\<close>

definition process_repository ::
  "world \<Rightarrow> 'm initializer \<Rightarrow> 'm repo_scheme \<Rightarrow> state \<Rightarrow> state" where
  "process_repository w self repo s =
     (let repo_name = name repo;
          repo_path = joinpath w (base_dir self) repo_name;
          expected_remote = ''git@github.com:'' @ repo_org self @ ''/'' @ repo_name @ ''.git'';
          s1 = print (Processing repo_name) s
      in if path_exists w (trace s1) repo_path then
           (let s2 = print (Exists_verifying repo_name) s1 in
            case check_remote w repo_path expected_remote s2 of
              (True, s3) \<Rightarrow>
                (let s4 = print (Updating repo_name) s3 in
                 case update_repository w repo_path s4 of
                   (True, s5) \<Rightarrow> print (Updated_ok repo_name) s5
                 | (False, s5) \<Rightarrow> print (Update_failed repo_name) s5)
            | (False, s3) \<Rightarrow>
                print Check_manually
                  (print (Expected expected_remote) (print (Remote_mismatch repo_name) s3)))
         else
           (let s2 = print (Cloning repo_name) s1 in
            case clone_repository w self repo_name repo_path s2 of
              (True, s3) \<Rightarrow> print (Cloned_ok repo_name) s3
            | (False, s3) \<Rightarrow> print (Clone_failed repo_name) s3))"

text \<open>
  \<^verbatim>\<open>asyncio.gather\<close> over the tasks, here run one after the other in the order of the
  list. \<^verbatim>\<open>sys.exit(1)\<close> raises \<^verbatim>\<open>SystemExit\<close>, which nothing in the script catches.
  What ends a call early is that, or an exception no \<^verbatim>\<open>except\<close> clause catches.
\<close>

fun gather :: "world \<Rightarrow> 'm initializer \<Rightarrow> 'm repo_scheme list \<Rightarrow> state \<Rightarrow> state" where
  "gather w self [] s = s"
| "gather w self (repo # repos) s = gather w self repos (process_repository w self repo s)"

datatype exit = SystemExit int | Uncaught exn

definition run :: "world \<Rightarrow> 'm initializer \<Rightarrow> state \<Rightarrow> (exit + unit) \<times> state" where
  "run w self s =
     (let s1 = print (Initializing_project (project_name self)) s;
          s2 = makedirs (base_dir self) s1;
          s3 = print Verifying_access s2
      in case verify_git_ssh w s3 of
           (False, s4) \<Rightarrow>
             (Inl (SystemExit 1), print Check_ssh_configuration (print Access_failed s4))
         | (True, s4) \<Rightarrow>
             (let s5 = print Access_verified s4;
                  s6 = gather w self (repositories self) s5
              in (Inr (), print Initialization_complete s6)))"

text \<open>
  \<^verbatim>\<open>main\<close> parses the command line, builds the configuration, prints it under
  \<^verbatim>\<open>--debug\<close> and runs the initialiser. The configuration is a dictionary display with
  the project name, the organisation and a list of six descriptors. The descriptors are
  written with the names \<^verbatim>\<open>true\<close>, \<^verbatim>\<open>false\<close> and \<^verbatim>\<open>null\<close>, which Python does not
  define (its constants are \<^verbatim>\<open>True\<close>, \<^verbatim>\<open>False\<close> and \<^verbatim>\<open>None\<close>): evaluating the display
  raises \<^verbatim>\<open>NameError\<close> at the first of them, the value of \<^verbatim>\<open>archive_on_destroy\<close> in the
  first descriptor. \<open>config\<close> is the result of evaluating the display, and \<open>main\<close> follows
  the source from there: nothing in it catches the exception, so the statements after the
  display are not reached.
\<close>

definition config :: "exn + string \<times> string \<times> repo list" where
  "config = Inl NameError"

definition main :: "world \<Rightarrow> bool \<Rightarrow> state \<Rightarrow> (exit + unit) \<times> state" where
  "main w debug s =
     (case config of
        Inl e \<Rightarrow> (Inl (Uncaught e), s)
      | Inr (pn, org, repos) \<Rightarrow>
          (let s1 = (if debug then print Configuration_dump (print Configuration_header s)
                     else s);
               initializer = ProjectInitializer w pn org repos
           in run w initializer s1))"

text \<open>
  Running the file as a script executes its top level: the imports (taken to succeed),
  the class statement and the definition of \<^verbatim>\<open>main\<close>. Nothing calls \<^verbatim>\<open>main\<close>, so the
  script ends there.
\<close>

definition script :: "world \<Rightarrow> state \<Rightarrow> (exit + unit) \<times> state" where
  "script w s = (Inr (), s)"

text \<open>
  The exit status of the interpreter: the code of \<^verbatim>\<open>SystemExit\<close>, 1 after an exception
  nothing catches, otherwise 0.
\<close>

fun exit_code :: "exit + unit \<Rightarrow> int" where
  "exit_code (Inl (SystemExit n)) = n"
| "exit_code (Inl (Uncaught e)) = 1"
| "exit_code (Inr _) = 0"

text \<open>
  The names of the six descriptors of the display, in its order; the other keys of a
  descriptor are never read and are left out.
\<close>

definition config_repositories :: "repo list" where
  "config_repositories =
     [\<lparr>name = ''terraform-gcp-compute''\<rparr>, \<lparr>name = ''terraform-gcp-networking''\<rparr>,
      \<lparr>name = ''terraform-gcp-storage''\<rparr>, \<lparr>name = ''terraform-gcp-monitoring''\<rparr>,
      \<lparr>name = ''terraform-gcp-security''\<rparr>, \<lparr>name = ''gcp-deployment''\<rparr>]"

subsection \<open>Vocabulary of the statements\<close>

text \<open>
  The calls to external programs the script can make, and the URL the specification gives
  for a repository: \<^verbatim>\<open>git@<host>:<org>/<name>.git\<close>, the host being \<^verbatim>\<open>github.com\<close>.
\<close>

definition ssh_call :: action where
  "ssh_call = Exec [''ssh'', ''-T'', ''git@github.com''] None"

definition get_url_call :: "string \<Rightarrow> action" where
  "get_url_call p = Exec [''git'', ''remote'', ''get-url'', ''origin''] (Some p)"

definition fetch_call :: "string \<Rightarrow> action" where
  "fetch_call p = Exec [''git'', ''fetch''] (Some p)"

definition branch_call :: "string \<Rightarrow> action" where
  "branch_call p = Exec [''git'', ''rev-parse'', ''--abbrev-ref'', ''HEAD''] (Some p)"

definition pull_call :: "string \<Rightarrow> string \<Rightarrow> action" where
  "pull_call p b = Exec [''git'', ''pull'', ''origin'', b] (Some p)"

definition clone_call :: "string \<Rightarrow> string \<Rightarrow> action" where
  "clone_call url p = Exec [''git'', ''clone'', url, p] None"

definition spec_remote_url :: "string \<Rightarrow> string \<Rightarrow> string" where
  "spec_remote_url org n = ''git@github.com:'' @ org @ ''/'' @ n @ ''.git''"

text \<open>Calls are classified by the \<^verbatim>\<open>git\<close> subcommand they run.\<close>

fun git_subcommand :: "action \<Rightarrow> string option" where
  "git_subcommand (Exec (g # sub # args) cwd) = (if g = ''git'' then Some sub else None)"
| "git_subcommand _ = None"

definition is_fetch :: "action \<Rightarrow> bool" where
  "is_fetch a = (git_subcommand a = Some ''fetch'')"

definition is_branch_lookup :: "action \<Rightarrow> bool" where
  "is_branch_lookup a = (git_subcommand a = Some ''rev-parse'')"

definition is_pull :: "action \<Rightarrow> bool" where
  "is_pull a = (git_subcommand a = Some ''pull'')"

definition is_clone :: "action \<Rightarrow> bool" where
  "is_clone a = (git_subcommand a = Some ''clone'')"

definition mutating :: "action \<Rightarrow> bool" where
  "mutating a = (is_fetch a \<or> is_pull a \<or> is_clone a)"

text \<open>
  What one task adds to the run: the calls it makes and the lines it prints. The outcome
  of the specification is read off the status line the task prints.
\<close>

definition task_actions ::
  "world \<Rightarrow> 'm initializer \<Rightarrow> 'm repo_scheme \<Rightarrow> state \<Rightarrow> action list" where
  "task_actions w self repo s =
     drop (length (trace s)) (trace (process_repository w self repo s))"

definition task_output ::
  "world \<Rightarrow> 'm initializer \<Rightarrow> 'm repo_scheme \<Rightarrow> state \<Rightarrow> msg list" where
  "task_output w self repo s =
     drop (length (out s)) (out (process_repository w self repo s))"

datatype sync_outcome = Cloned | Updated | RemoteMismatch | CloneFailed | UpdateFailed

fun reported :: "msg \<Rightarrow> sync_outcome option" where
  "reported (Cloned_ok n) = Some Cloned"
| "reported (Updated_ok n) = Some Updated"
| "reported (Remote_mismatch n) = Some RemoteMismatch"
| "reported (Clone_failed n) = Some CloneFailed"
| "reported (Update_failed n) = Some UpdateFailed"
| "reported _ = None"

definition task_outcomes ::
  "world \<Rightarrow> 'm initializer \<Rightarrow> 'm repo_scheme \<Rightarrow> state \<Rightarrow> sync_outcome list" where
  "task_outcomes w self repo s = List.map_filter reported (task_output w self repo s)"

definition emit :: "action list \<Rightarrow> msg list \<Rightarrow> state \<Rightarrow> state" where
  "emit as ms s = \<lparr>trace = trace s @ as, out = out s @ ms\<rparr>"

definition remote_matches :: "world \<Rightarrow> action list \<Rightarrow> string \<Rightarrow> string \<Rightarrow> bool" where
  "remote_matches w h p x =
     (case subprocess w h [''git'', ''remote'', ''get-url'', ''origin''] (Some p) of
        Inl e \<Rightarrow> False
      | Inr r \<Rightarrow> (case decode (stdout r) of Inl e \<Rightarrow> False | Inr t \<Rightarrow> strip t = x))"

subsection \<open>Sample worlds\<close>

text \<open>
  A workspace at \<^verbatim>\<open>/work\<close> with POSIX paths. \<open>finished\<close> is a process that ran to its
  end. GitHub greets an authenticated user on the error stream and closes the connection
  with exit status 1.
\<close>

definition sample_world ::
  "(action list \<Rightarrow> string \<Rightarrow> bool) \<Rightarrow>
   (action list \<Rightarrow> string list \<Rightarrow> string option \<Rightarrow> exn + process) \<Rightarrow> world" where
  "sample_world ex sp =
     \<lparr>resolve = (\<lambda>p. ''/work''), joinpath = (\<lambda>b n. b @ ''/'' @ n),
      path_exists = ex, subprocess = sp\<rparr>"

definition finished :: "int \<Rightarrow> string \<Rightarrow> string \<Rightarrow> exn + process" where
  "finished rc so se = Inr \<lparr>returncode = rc, stdout = Utf8 so, stderr = Utf8 se\<rparr>"

definition greeting :: string where
  "greeting = ''Hi octocat! You'' @ [CHR 0x27] @
     ''ve successfully authenticated, but GitHub does not provide shell access.'' @ [CHR 0x0A]"

definition start :: state where
  "start = \<lparr>trace = [], out = []\<rparr>"

definition storage :: repo where
  "storage = \<lparr>name = ''terraform-gcp-storage''\<rparr>"

definition sample_initializer :: "world \<Rightarrow> unit initializer" where
  "sample_initializer w = ProjectInitializer w ''gcp-kubernetes'' ''HappyPathway'' [storage]"

text \<open>An empty workspace: nothing is cloned yet, and every program succeeds.\<close>

definition fresh_world :: world where
  "fresh_world =
     sample_world (\<lambda>h p. False)
       (\<lambda>h argv cwd. if argv = [''ssh'', ''-T'', ''git@github.com'']
                       then finished 1 [] greeting else finished 0 [] [])"


text \<open>
  The exception that stops an update begun after the calls \<open>h\<close> in the directory \<open>p\<close>:
  that of the first step of fetch, branch lookup, decoding of the branch name and pull
  that raises, if any does.
\<close>

definition update_failure :: "world \<Rightarrow> action list \<Rightarrow> string \<Rightarrow> exn option" where
  "update_failure w h p =
     (case subprocess w h [''git'', ''fetch''] (Some p) of
        Inl e \<Rightarrow> Some e
      | Inr fp \<Rightarrow>
         (case subprocess w (h @ [fetch_call p])
                 [''git'', ''rev-parse'', ''--abbrev-ref'', ''HEAD''] (Some p) of
            Inl e \<Rightarrow> Some e
          | Inr bp \<Rightarrow>
             (case decode (stdout bp) of
                Inl e \<Rightarrow> Some e
              | Inr t \<Rightarrow>
                 (case subprocess w (h @ [fetch_call p, branch_call p])
                         [''git'', ''pull'', ''origin'', strip t] (Some p) of
                    Inl e \<Rightarrow> Some e
                  | Inr pp \<Rightarrow> None))))"

text \<open>
  Worlds in which every path exists: a clone of the expected remote on branch
  \<^verbatim>\<open>main\<close>; a clone made over HTTPS; a directory in which \<^verbatim>\<open>git\<close> cannot be
  launched; a clone in which launching \<^verbatim>\<open>git fetch\<close> fails; one in which launching the
  branch lookup fails; one in which the branch lookup prints bytes that are not UTF-8. And
  an empty workspace
  where \<^verbatim>\<open>git clone\<close> runs and exits with status 128.
\<close>

definition cloned_world :: world where
  "cloned_world =
     sample_world (\<lambda>h p. True)
       (\<lambda>h argv cwd.
          if argv = [''ssh'', ''-T'', ''git@github.com''] then finished 1 [] greeting
          else if argv = [''git'', ''remote'', ''get-url'', ''origin'']
          then finished 0 (''git@github.com:HappyPathway/terraform-gcp-storage.git\<newline>'') []
          else if argv = [''git'', ''rev-parse'', ''--abbrev-ref'', ''HEAD'']
          then finished 0 (''main\<newline>'') []
          else finished 0 [] [])"

definition foreign_world :: world where
  "foreign_world =
     sample_world (\<lambda>h p. True)
       (\<lambda>h argv cwd.
          if argv = [''ssh'', ''-T'', ''git@github.com''] then finished 1 [] greeting
          else if argv = [''git'', ''remote'', ''get-url'', ''origin'']
          then finished 0 (''https://github.com/HappyPathway/terraform-gcp-storage.git\<newline>'') []
          else finished 0 [] [])"

definition unreadable_world :: world where
  "unreadable_world =
     sample_world (\<lambda>h p. True)
       (\<lambda>h argv cwd.
          if argv = [''ssh'', ''-T'', ''git@github.com''] then finished 1 [] greeting
          else if argv = [''git'', ''remote'', ''get-url'', ''origin''] then Inl OSError
          else finished 0 [] [])"

definition fetch_raises_world :: world where
  "fetch_raises_world =
     sample_world (\<lambda>h p. True)
       (\<lambda>h argv cwd.
          if argv = [''ssh'', ''-T'', ''git@github.com''] then finished 1 [] greeting
          else if argv = [''git'', ''remote'', ''get-url'', ''origin'']
          then finished 0 (''git@github.com:HappyPathway/terraform-gcp-storage.git\<newline>'') []
          else if argv = [''git'', ''fetch''] then Inl OSError
          else finished 0 [] [])"

definition branch_raises_world :: world where
  "branch_raises_world =
     sample_world (\<lambda>h p. True)
       (\<lambda>h argv cwd.
          if argv = [''ssh'', ''-T'', ''git@github.com''] then finished 1 [] greeting
          else if argv = [''git'', ''remote'', ''get-url'', ''origin'']
          then finished 0 (''git@github.com:HappyPathway/terraform-gcp-storage.git\<newline>'') []
          else if argv = [''git'', ''rev-parse'', ''--abbrev-ref'', ''HEAD''] then Inl OSError
          else finished 0 [] [])"

definition branch_undecodable_world :: world where
  "branch_undecodable_world =
     sample_world (\<lambda>h p. True)
       (\<lambda>h argv cwd.
          if argv = [''ssh'', ''-T'', ''git@github.com''] then finished 1 [] greeting
          else if argv = [''git'', ''remote'', ''get-url'', ''origin'']
          then finished 0 (''git@github.com:HappyPathway/terraform-gcp-storage.git\<newline>'') []
          else if argv = [''git'', ''rev-parse'', ''--abbrev-ref'', ''HEAD'']
          then Inr \<lparr>returncode = 0, stdout = Invalid_utf8, stderr = Utf8 []\<rparr>
          else finished 0 [] [])"

definition clone_exits_128_world :: world where
  "clone_exits_128_world =
     sample_world (\<lambda>h p. False)
       (\<lambda>h argv cwd.
          if argv = [''ssh'', ''-T'', ''git@github.com''] then finished 1 [] greeting
          else if take 2 argv = [''git'', ''clone'']
          then finished 128 [] ''fatal: Could not read from remote repository.''
          else finished 0 [] [])"

text \<open>
  The calls an update makes after the calls \<open>h\<close>: the chain fetch, branch lookup, pull,
  cut after the first step that raises.
\<close>

definition update_calls :: "world \<Rightarrow> action list \<Rightarrow> string \<Rightarrow> action list" where
  "update_calls w h p =
     (case subprocess w h [''git'', ''fetch''] (Some p) of
        Inl e \<Rightarrow> [fetch_call p]
      | Inr fp \<Rightarrow>
         (case subprocess w (h @ [fetch_call p])
                 [''git'', ''rev-parse'', ''--abbrev-ref'', ''HEAD''] (Some p) of
            Inl e \<Rightarrow> [fetch_call p, branch_call p]
          | Inr bp \<Rightarrow>
             (case decode (stdout bp) of
                Inl e \<Rightarrow> [fetch_call p, branch_call p]
              | Inr t \<Rightarrow> [fetch_call p, branch_call p, pull_call p (strip t)])))"

text \<open>An empty workspace in which \<^verbatim>\<open>git clone\<close> cannot be launched.\<close>

definition clone_raises_world :: world where
  "clone_raises_world =
     sample_world (\<lambda>h p. False)
       (\<lambda>h argv cwd.
          if argv = [''ssh'', ''-T'', ''git@github.com''] then finished 1 [] greeting
          else if take 2 argv = [''git'', ''clone''] then Inl OSError
          else finished 0 [] [])"

text \<open>The path a call works on: its working directory, or the directory a clone creates.\<close>

fun action_target :: "action \<Rightarrow> string option" where
  "action_target (Exec argv (Some cwd)) = Some cwd"
| "action_target (Exec [g, c, url, p] None) =
     (if g = ''git'' \<and> c = ''clone'' then Some p else None)"
| "action_target _ = None"

fun is_processing :: "msg \<Rightarrow> bool" where
  "is_processing (Processing n) = True"
| "is_processing _ = False"

text \<open>A world in which the key is not accepted, and one without an \<^verbatim>\<open>ssh\<close> program.\<close>

definition denied :: string where
  "denied = ''git@github.com: Permission denied (publickey).\<newline>''"

definition denied_world :: world where
  "denied_world =
     sample_world (\<lambda>h p. False)
       (\<lambda>h argv cwd.
          if argv = [''ssh'', ''-T'', ''git@github.com''] then finished 255 [] denied
          else finished 0 [] [])"

definition no_ssh_world :: world where
  "no_ssh_world =
     sample_world (\<lambda>h p. False)
       (\<lambda>h argv cwd.
          if argv = [''ssh'', ''-T'', ''git@github.com''] then Inl OSError
          else finished 0 [] [])"

subsection \<open>Tasks side by side\<close>

text \<open>
  \<^verbatim>\<open>asyncio.gather\<close> runs the coroutines \<^verbatim>\<open>process_repository\<close> on one event loop: a
  coroutine runs until it awaits, and another one may run then. A coroutine awaits the
  semaphore and, while it holds it, its subprocesses. \<open>pc\<close> is the point where a task is
  suspended: before \<^verbatim>\<open>async with self.semaphore\<close>, before one of its subprocesses
  (launching and awaiting a subprocess is one step), or at its end.
\<close>

datatype pc = Waiting | At_check_remote | At_fetch | At_branch | At_pull string | At_clone | Done

text \<open>
  Entering \<^verbatim>\<open>async with\<close>: the code of \<^verbatim>\<open>process_repository\<close> up to its first
  subprocess.
\<close>

definition enter :: "world \<Rightarrow> 'm initializer \<Rightarrow> 'm repo_scheme \<Rightarrow> state \<Rightarrow> pc \<times> state" where
  "enter w self repo s =
     (let repo_name = name repo;
          repo_path = joinpath w (base_dir self) repo_name;
          s1 = print (Processing repo_name) s
      in if path_exists w (trace s1) repo_path
         then (At_check_remote, print (Exists_verifying repo_name) s1)
         else (At_clone, print (Cloning repo_name) s1))"

text \<open>
  Resuming a task that holds the semaphore: it runs the subprocess it is suspended at and
  the code after it, up to the next subprocess or to the end of \<^verbatim>\<open>process_repository\<close>.
\<close>

fun resume :: "world \<Rightarrow> 'm initializer \<Rightarrow> 'm repo_scheme \<Rightarrow> pc \<Rightarrow> state \<Rightarrow> pc \<times> state" where
  "resume w self repo At_check_remote s =
     (let repo_name = name repo;
          repo_path = joinpath w (base_dir self) repo_name;
          expected_remote = ''git@github.com:'' @ repo_org self @ ''/'' @ repo_name @ ''.git''
      in case check_remote w repo_path expected_remote s of
           (True, s3) \<Rightarrow> (At_fetch, print (Updating repo_name) s3)
         | (False, s3) \<Rightarrow>
             (Done, print Check_manually
                      (print (Expected expected_remote) (print (Remote_mismatch repo_name) s3))))"
| "resume w self repo At_fetch s =
     (let repo_name = name repo;
          repo_path = joinpath w (base_dir self) repo_name
      in case run_subprocess w [''git'', ''fetch''] (Some repo_path) s of
           (Inl e, s1) \<Rightarrow> (Done, print (Update_failed repo_name) (print (Error_updating e) s1))
         | (Inr fetch_process, s1) \<Rightarrow> (At_branch, s1))"
| "resume w self repo At_branch s =
     (let repo_name = name repo;
          repo_path = joinpath w (base_dir self) repo_name
      in case run_subprocess w [''git'', ''rev-parse'', ''--abbrev-ref'', ''HEAD'']
                (Some repo_path) s of
           (Inl e, s2) \<Rightarrow> (Done, print (Update_failed repo_name) (print (Error_updating e) s2))
         | (Inr branch_process, s2) \<Rightarrow>
             (case decode (stdout branch_process) of
                Inl e \<Rightarrow> (Done, print (Update_failed repo_name) (print (Error_updating e) s2))
              | Inr t \<Rightarrow> (At_pull (strip t), s2)))"
| "resume w self repo (At_pull current_branch) s =
     (let repo_name = name repo;
          repo_path = joinpath w (base_dir self) repo_name
      in case run_subprocess w [''git'', ''pull'', ''origin'', current_branch]
                (Some repo_path) s of
           (Inl e, s3) \<Rightarrow> (Done, print (Update_failed repo_name) (print (Error_updating e) s3))
         | (Inr pull_process, s3) \<Rightarrow> (Done, print (Updated_ok repo_name) s3))"
| "resume w self repo At_clone s =
     (let repo_name = name repo;
          repo_path = joinpath w (base_dir self) repo_name
      in case clone_repository w self repo_name repo_path s of
           (True, s3) \<Rightarrow> (Done, print (Cloned_ok repo_name) s3)
         | (False, s3) \<Rightarrow> (Done, print (Clone_failed repo_name) s3))"
| "resume w self repo Waiting s = (Waiting, s)"
| "resume w self repo Done s = (Done, s)"

text \<open>
  The event loop: the value of the semaphore, the point each task is at, and the state
  the tasks share. \<open>advance w self i\<close> lets task \<open>i\<close> run to its next suspension. A
  waiting task takes the semaphore when its value is positive and stays blocked
  otherwise (\<^verbatim>\<open>Semaphore.acquire\<close>); a task that reaches its end leaves
  \<^verbatim>\<open>async with\<close> and gives the semaphore back (\<^verbatim>\<open>Semaphore.release\<close>).
\<close>

record loop =
  permits :: nat
  tasks :: "pc list"
  shared :: state

definition holding :: "pc \<Rightarrow> bool" where
  "holding c = (c \<noteq> Waiting \<and> c \<noteq> Done)"

definition in_flight :: "loop \<Rightarrow> nat" where
  "in_flight l = length (filter holding (tasks l))"

definition advance :: "world \<Rightarrow> 'm initializer \<Rightarrow> nat \<Rightarrow> loop \<Rightarrow> loop option" where
  "advance w self i l =
     (if i < length (tasks l) \<and> i < length (repositories self) then
        (case tasks l ! i of
           Waiting \<Rightarrow>
             if permits l = 0 then None
             else (case enter w self (repositories self ! i) (shared l) of
                     (c, s) \<Rightarrow>
                       Some \<lparr>permits = permits l - 1, tasks = (tasks l)[i := c], shared = s\<rparr>)
         | Done \<Rightarrow> None
         | c \<Rightarrow>
             (case resume w self (repositories self ! i) c (shared l) of
                (c', s) \<Rightarrow>
                  Some \<lparr>permits = (if c' = Done then permits l + 1 else permits l),
                        tasks = (tasks l)[i := c'], shared = s\<rparr>))
      else None)"

text \<open>
  \<^verbatim>\<open>gather\<close> creates one task for each repository, all waiting; a schedule is the
  order in which the loop resumes them.
\<close>

definition launch :: "'m initializer \<Rightarrow> state \<Rightarrow> loop" where
  "launch self s =
     \<lparr>permits = semaphore self,
      tasks = replicate (length (repositories self)) Waiting,
      shared = s\<rparr>"

fun schedule :: "world \<Rightarrow> 'm initializer \<Rightarrow> nat list \<Rightarrow> loop \<Rightarrow> loop option" where
  "schedule w self [] l = Some l"
| "schedule w self (i # js) l =
     (case advance w self i l of None \<Rightarrow> None | Some l' \<Rightarrow> schedule w self js l')"

text \<open>A task driven alone, for at most \<open>k\<close> resumptions.\<close>

fun drive ::
  "world \<Rightarrow> 'm initializer \<Rightarrow> 'm repo_scheme \<Rightarrow> nat \<Rightarrow> pc \<times> state \<Rightarrow> pc \<times> state" where
  "drive w self repo 0 cs = cs"
| "drive w self repo (Suc k) cs = drive w self repo k (resume w self repo (fst cs) (snd cs))"

text \<open>
  The six repositories of the configuration in an empty workspace, after the loop has
  resumed the first five tasks once: five tasks are about to clone, the sixth waits.
\<close>

definition config_initializer :: "world \<Rightarrow> unit initializer" where
  "config_initializer w =
     ProjectInitializer w ''gcp-kubernetes'' ''HappyPathway'' config_repositories"

definition five_cloning :: loop where
  "five_cloning =
     \<lparr>permits = 0,
      tasks = [At_clone, At_clone, At_clone, At_clone, At_clone, Waiting],
      shared =
        \<lparr>trace = [],
         out = [Processing ''terraform-gcp-compute'', Cloning ''terraform-gcp-compute'',
                Processing ''terraform-gcp-networking'', Cloning ''terraform-gcp-networking'',
                Processing ''terraform-gcp-storage'', Cloning ''terraform-gcp-storage'',
                Processing ''terraform-gcp-monitoring'', Cloning ''terraform-gcp-monitoring'',
                Processing ''terraform-gcp-security'', Cloning ''terraform-gcp-security'']\<rparr>\<rparr>"

section \<open>Properties\<close>

subsection \<open>The functions, call by call\<close>

lemma emit_simps [simp]:
  "trace (emit as ms s) = trace s @ as"
  "out (emit as ms s) = out s @ ms"
  "emit as ms (emit bs ns s) = emit (bs @ as) (ns @ ms) s"
  by (simp_all add: emit_def)

lemma print_emit: "print m s = emit [] [m] s"
  by (simp add: print_def emit_def)

lemma makedirs_emit: "makedirs p s = emit [Makedirs p] [] s"
  by (simp add: makedirs_def emit_def)

lemma run_subprocess_emit:
  "run_subprocess w argv cwd s = (subprocess w (trace s) argv cwd, emit [Exec argv cwd] [] s)"
  by (simp add: run_subprocess_def emit_def)

lemma clone_repository_eq:
  "clone_repository w self n p s =
     (case subprocess w (trace s)
             [''git'', ''clone'', spec_remote_url (repo_org self) n, p] None of
        Inl e \<Rightarrow>
          (False, emit [clone_call (spec_remote_url (repo_org self) n) p] [Error_cloning e] s)
      | Inr r \<Rightarrow> (True, emit [clone_call (spec_remote_url (repo_org self) n) p] [] s))"
  by (simp add: clone_repository_def clone_repository_try_def run_subprocess_emit print_emit
      clone_call_def spec_remote_url_def split: sum.splits)

lemma check_remote_eq:
  "check_remote w p x s = (remote_matches w (trace s) p x, emit [get_url_call p] [] s)"
  by (simp add: check_remote_def check_remote_try_def run_subprocess_emit get_url_call_def
      remote_matches_def split: sum.splits)

lemma update_repository_eq:
  "update_repository w p s =
     (case subprocess w (trace s) [''git'', ''fetch''] (Some p) of
        Inl e \<Rightarrow> (False, emit [fetch_call p] [Error_updating e] s)
      | Inr fp \<Rightarrow>
         (case subprocess w (trace s @ [fetch_call p])
                 [''git'', ''rev-parse'', ''--abbrev-ref'', ''HEAD''] (Some p) of
            Inl e \<Rightarrow> (False, emit [fetch_call p, branch_call p] [Error_updating e] s)
          | Inr bp \<Rightarrow>
             (case decode (stdout bp) of
                Inl e \<Rightarrow> (False, emit [fetch_call p, branch_call p] [Error_updating e] s)
              | Inr t \<Rightarrow>
                 (case subprocess w (trace s @ [fetch_call p, branch_call p])
                         [''git'', ''pull'', ''origin'', strip t] (Some p) of
                    Inl e \<Rightarrow>
                      (False, emit [fetch_call p, branch_call p, pull_call p (strip t)]
                                [Error_updating e] s)
                  | Inr pp \<Rightarrow>
                      (True, emit [fetch_call p, branch_call p, pull_call p (strip t)] [] s)))))"
  by (simp add: update_repository_def update_repository_try_def run_subprocess_emit print_emit
      fetch_call_def branch_call_def pull_call_def Let_def split: sum.splits)

lemma verify_git_ssh_eq:
  "verify_git_ssh w s =
     (case subprocess w (trace s) [''ssh'', ''-T'', ''git@github.com''] None of
        Inl e \<Rightarrow> (False, emit [ssh_call] [Error_verifying e] s)
      | Inr p \<Rightarrow>
         (case decode (stderr p) of
            Inl e \<Rightarrow> (False, emit [ssh_call] [Error_verifying e] s)
          | Inr t \<Rightarrow> (sublist ''successfully authenticated'' (lower t), emit [ssh_call] [] s)))"
  by (simp add: verify_git_ssh_def verify_git_ssh_try_def run_subprocess_emit print_emit
      ssh_call_def split: sum.splits)

lemma process_repository_absent:
  assumes "\<not> path_exists w (trace s) (joinpath w (base_dir self) (name repo))"
  shows "process_repository w self repo s =
     (case subprocess w (trace s)
             [''git'', ''clone'', spec_remote_url (repo_org self) (name repo),
              joinpath w (base_dir self) (name repo)] None of
        Inl e \<Rightarrow>
          emit [clone_call (spec_remote_url (repo_org self) (name repo))
                  (joinpath w (base_dir self) (name repo))]
            [Processing (name repo), Cloning (name repo), Error_cloning e,
             Clone_failed (name repo)] s
      | Inr r \<Rightarrow>
          emit [clone_call (spec_remote_url (repo_org self) (name repo))
                  (joinpath w (base_dir self) (name repo))]
            [Processing (name repo), Cloning (name repo), Cloned_ok (name repo)] s)"
  using assms
  by (simp add: process_repository_def Let_def clone_repository_eq print_emit
      spec_remote_url_def split: sum.splits)

lemma process_repository_mismatch:
  assumes "path_exists w (trace s) (joinpath w (base_dir self) (name repo))"
    and "\<not> remote_matches w (trace s) (joinpath w (base_dir self) (name repo))
             (spec_remote_url (repo_org self) (name repo))"
  shows "process_repository w self repo s =
     emit [get_url_call (joinpath w (base_dir self) (name repo))]
       [Processing (name repo), Exists_verifying (name repo), Remote_mismatch (name repo),
        Expected (spec_remote_url (repo_org self) (name repo)), Check_manually] s"
  using assms
  by (simp add: process_repository_def Let_def check_remote_eq print_emit spec_remote_url_def)

lemma process_repository_match:
  assumes "path_exists w (trace s) (joinpath w (base_dir self) (name repo))"
    and "remote_matches w (trace s) (joinpath w (base_dir self) (name repo))
           (spec_remote_url (repo_org self) (name repo))"
  shows "process_repository w self repo s =
     (case update_repository w (joinpath w (base_dir self) (name repo))
             (emit [get_url_call (joinpath w (base_dir self) (name repo))]
                [Processing (name repo), Exists_verifying (name repo), Updating (name repo)] s) of
        (True, s5) \<Rightarrow> print (Updated_ok (name repo)) s5
      | (False, s5) \<Rightarrow> print (Update_failed (name repo)) s5)"
  using assms
  by (simp add: process_repository_def Let_def check_remote_eq print_emit spec_remote_url_def)

lemma classify_calls [simp]:
  "is_clone (clone_call u p)" "\<not> is_fetch (clone_call u p)"
  "\<not> is_branch_lookup (clone_call u p)" "\<not> is_pull (clone_call u p)"
  "\<not> is_clone (get_url_call p)" "\<not> is_fetch (get_url_call p)"
  "\<not> is_branch_lookup (get_url_call p)" "\<not> is_pull (get_url_call p)"
  "\<not> is_clone (fetch_call p)" "is_fetch (fetch_call p)"
  "\<not> is_branch_lookup (fetch_call p)" "\<not> is_pull (fetch_call p)"
  "\<not> is_clone (branch_call p)" "\<not> is_fetch (branch_call p)"
  "is_branch_lookup (branch_call p)" "\<not> is_pull (branch_call p)"
  "\<not> is_clone (pull_call p b)" "\<not> is_fetch (pull_call p b)"
  "\<not> is_branch_lookup (pull_call p b)" "is_pull (pull_call p b)"
  by (simp_all add: is_clone_def is_fetch_def is_branch_lookup_def is_pull_def
      clone_call_def get_url_call_def fetch_call_def branch_call_def pull_call_def)

lemma sample_world_simps [simp]:
  "resolve (sample_world ex sp) = (\<lambda>p. ''/work'')"
  "joinpath (sample_world ex sp) = (\<lambda>b n. b @ ''/'' @ n)"
  "path_exists (sample_world ex sp) = ex"
  "subprocess (sample_world ex sp) = sp"
  by (simp_all add: sample_world_def)

lemma sample_initializer_simps [simp]:
  "repo_org (sample_initializer w) = ''HappyPathway''"
  "base_dir (sample_initializer w) = resolve w ''..''"
  "repositories (sample_initializer w) = [storage]"
  "project_name (sample_initializer w) = ''gcp-kubernetes''"
  "name storage = ''terraform-gcp-storage''"
  "trace start = []" "out start = []"
  by (simp_all add: sample_initializer_def ProjectInitializer_def storage_def start_def)

lemma fresh_world_simps [simp]:
  "resolve fresh_world = (\<lambda>p. ''/work'')"
  "joinpath fresh_world = (\<lambda>b n. b @ ''/'' @ n)"
  "path_exists fresh_world = (\<lambda>h p. False)"
  "subprocess fresh_world =
     (\<lambda>h argv cwd. if argv = [''ssh'', ''-T'', ''git@github.com'']
                     then finished 1 [] greeting else finished 0 [] [])"
  by (simp_all add: fresh_world_def)

subsection \<open>A repository that is not there is cloned\<close>

text \<open>
  C5. When the target path of a descriptor does not exist, \<^verbatim>\<open>process_repository\<close>
  makes exactly one call, the clone of the repository's URL into the target path: one clone
  attempt, and no fetch, no branch lookup and no pull.
\<close>

theorem process_repository_absent_clones_once:
  assumes "\<not> path_exists w (trace s) (joinpath w (base_dir self) (name repo))"
  shows "task_actions w self repo s =
           [clone_call (spec_remote_url (repo_org self) (name repo))
              (joinpath w (base_dir self) (name repo))]
       \<and> length (filter is_clone (task_actions w self repo s)) = 1
       \<and> filter is_fetch (task_actions w self repo s) = []
       \<and> filter is_branch_lookup (task_actions w self repo s) = []
       \<and> filter is_pull (task_actions w self repo s) = []"
proof -
  have "task_actions w self repo s =
          [clone_call (spec_remote_url (repo_org self) (name repo))
             (joinpath w (base_dir self) (name repo))]"
    by (simp add: task_actions_def process_repository_absent [OF assms] split: sum.splits)
  then show ?thesis by simp
qed

theorem process_repository_absent_clones_once_witness:
  "\<not> path_exists fresh_world (trace start) ''/work/terraform-gcp-storage''
   \<and> task_actions fresh_world (sample_initializer fresh_world) storage start =
       [Exec [''git'', ''clone'', ''git@github.com:HappyPathway/terraform-gcp-storage.git'',
              ''/work/terraform-gcp-storage''] None]
   \<and> length (filter is_clone
        (task_actions fresh_world (sample_initializer fresh_world) storage start)) = 1
   \<and> filter is_fetch
        (task_actions fresh_world (sample_initializer fresh_world) storage start) = []"
  using process_repository_absent_clones_once
    [of fresh_world start "sample_initializer fresh_world" storage]
  by (simp add: clone_call_def spec_remote_url_def is_clone_def is_fetch_def)

lemma world_simps [simp]:
  "resolve cloned_world = (\<lambda>p. ''/work'')"
  "joinpath cloned_world = (\<lambda>b n. b @ ''/'' @ n)"
  "path_exists cloned_world = (\<lambda>h p. True)"
  "resolve foreign_world = (\<lambda>p. ''/work'')"
  "joinpath foreign_world = (\<lambda>b n. b @ ''/'' @ n)"
  "path_exists foreign_world = (\<lambda>h p. True)"
  "resolve unreadable_world = (\<lambda>p. ''/work'')"
  "joinpath unreadable_world = (\<lambda>b n. b @ ''/'' @ n)"
  "path_exists unreadable_world = (\<lambda>h p. True)"
  "resolve fetch_raises_world = (\<lambda>p. ''/work'')"
  "joinpath fetch_raises_world = (\<lambda>b n. b @ ''/'' @ n)"
  "path_exists fetch_raises_world = (\<lambda>h p. True)"
  "resolve clone_exits_128_world = (\<lambda>p. ''/work'')"
  "joinpath clone_exits_128_world = (\<lambda>b n. b @ ''/'' @ n)"
  "path_exists clone_exits_128_world = (\<lambda>h p. False)"
  by (simp_all add: cloned_world_def foreign_world_def unreadable_world_def
      fetch_raises_world_def clone_exits_128_world_def)

lemma task_of_emit:
  assumes "process_repository w self repo s = emit as ms s"
  shows "task_actions w self repo s = as" and "task_output w self repo s = ms"
  using assms by (simp_all add: task_actions_def task_output_def)

lemma remote_matches_iff:
  "remote_matches w h p x =
     (\<exists>r t. subprocess w h [''git'', ''remote'', ''get-url'', ''origin''] (Some p) = Inr r
        \<and> decode (stdout r) = Inr t \<and> strip t = x)"
  by (auto simp: remote_matches_def split: sum.splits)

subsection \<open>A repository with another remote is left alone\<close>

text \<open>
  C1. When the target path exists and \<^verbatim>\<open>git remote get-url origin\<close> reports a URL
  that, stripped, differs from the expected one, \<^verbatim>\<open>process_repository\<close> makes that one
  read-only call and nothing else: no fetch, no pull, no clone, so nothing the script does
  can change the directory. It prints the remote-mismatch lines, and the outcome it reports
  is the remote mismatch.
\<close>

theorem process_repository_remote_mismatch:
  assumes "path_exists w (trace s) (joinpath w (base_dir self) (name repo))"
    and "subprocess w (trace s) [''git'', ''remote'', ''get-url'', ''origin'']
           (Some (joinpath w (base_dir self) (name repo))) = Inr r"
    and "decode (stdout r) = Inr t"
    and "strip t \<noteq> spec_remote_url (repo_org self) (name repo)"
  shows "task_actions w self repo s = [get_url_call (joinpath w (base_dir self) (name repo))]
       \<and> filter mutating (task_actions w self repo s) = []
       \<and> task_output w self repo s =
           [Processing (name repo), Exists_verifying (name repo), Remote_mismatch (name repo),
            Expected (spec_remote_url (repo_org self) (name repo)), Check_manually]
       \<and> task_outcomes w self repo s = [RemoteMismatch]"
proof -
  have "\<not> remote_matches w (trace s) (joinpath w (base_dir self) (name repo))
           (spec_remote_url (repo_org self) (name repo))"
    using assms(2-4) by (simp add: remote_matches_def)
  from process_repository_mismatch [OF assms(1) this]
  have "task_actions w self repo s = [get_url_call (joinpath w (base_dir self) (name repo))]"
    and "task_output w self repo s =
           [Processing (name repo), Exists_verifying (name repo), Remote_mismatch (name repo),
            Expected (spec_remote_url (repo_org self) (name repo)), Check_manually]"
    by (rule task_of_emit)+
  then show ?thesis
    by (simp add: task_outcomes_def mutating_def List.map_filter_simps)
qed

lemma sample_subprocess [simp]:
  "subprocess cloned_world h argv cwd =
     (if argv = [''ssh'', ''-T'', ''git@github.com''] then finished 1 [] greeting
      else if argv = [''git'', ''remote'', ''get-url'', ''origin'']
      then finished 0 (''git@github.com:HappyPathway/terraform-gcp-storage.git\<newline>'') []
      else if argv = [''git'', ''rev-parse'', ''--abbrev-ref'', ''HEAD'']
      then finished 0 (''main\<newline>'') []
      else finished 0 [] [])"
  "subprocess foreign_world h argv cwd =
     (if argv = [''ssh'', ''-T'', ''git@github.com''] then finished 1 [] greeting
      else if argv = [''git'', ''remote'', ''get-url'', ''origin'']
      then finished 0 (''https://github.com/HappyPathway/terraform-gcp-storage.git\<newline>'') []
      else finished 0 [] [])"
  "subprocess unreadable_world h argv cwd =
     (if argv = [''ssh'', ''-T'', ''git@github.com''] then finished 1 [] greeting
      else if argv = [''git'', ''remote'', ''get-url'', ''origin''] then Inl OSError
      else finished 0 [] [])"
  "subprocess fetch_raises_world h argv cwd =
     (if argv = [''ssh'', ''-T'', ''git@github.com''] then finished 1 [] greeting
      else if argv = [''git'', ''remote'', ''get-url'', ''origin'']
      then finished 0 (''git@github.com:HappyPathway/terraform-gcp-storage.git\<newline>'') []
      else if argv = [''git'', ''fetch''] then Inl OSError
      else finished 0 [] [])"
  "subprocess clone_exits_128_world h argv cwd =
     (if argv = [''ssh'', ''-T'', ''git@github.com''] then finished 1 [] greeting
      else if take 2 argv = [''git'', ''clone'']
      then finished 128 [] ''fatal: Could not read from remote repository.''
      else finished 0 [] [])"
  by (simp_all add: cloned_world_def foreign_world_def unreadable_world_def
      fetch_raises_world_def clone_exits_128_world_def)

lemma strip_samples [simp]:
  "strip (''git@github.com:HappyPathway/terraform-gcp-storage.git\<newline>'') =
     ''git@github.com:HappyPathway/terraform-gcp-storage.git''"
  "strip (''https://github.com/HappyPathway/terraform-gcp-storage.git\<newline>'') =
     ''https://github.com/HappyPathway/terraform-gcp-storage.git''"
  "strip (''main\<newline>'') = ''main''"
  by (simp_all add: strip_def isspace_def)

theorem process_repository_remote_mismatch_witness:
  "path_exists foreign_world (trace start) ''/work/terraform-gcp-storage''
   \<and> subprocess foreign_world (trace start) [''git'', ''remote'', ''get-url'', ''origin'']
        (Some ''/work/terraform-gcp-storage'') =
      finished 0 (''https://github.com/HappyPathway/terraform-gcp-storage.git\<newline>'') []
   \<and> task_actions foreign_world (sample_initializer foreign_world) storage start =
       [Exec [''git'', ''remote'', ''get-url'', ''origin''] (Some ''/work/terraform-gcp-storage'')]
   \<and> filter mutating (task_actions foreign_world (sample_initializer foreign_world) storage start) = []
   \<and> task_output foreign_world (sample_initializer foreign_world) storage start =
       [Processing ''terraform-gcp-storage'', Exists_verifying ''terraform-gcp-storage'',
        Remote_mismatch ''terraform-gcp-storage'',
        Expected ''git@github.com:HappyPathway/terraform-gcp-storage.git'', Check_manually]
   \<and> task_outcomes foreign_world (sample_initializer foreign_world) storage start = [RemoteMismatch]"
  using process_repository_remote_mismatch
    [of foreign_world start "sample_initializer foreign_world" storage
        "\<lparr>returncode = 0,
          stdout = Utf8 (''https://github.com/HappyPathway/terraform-gcp-storage.git\<newline>''),
          stderr = Utf8 []\<rparr>"
        "''https://github.com/HappyPathway/terraform-gcp-storage.git\<newline>''"]
  by (simp add: finished_def get_url_call_def spec_remote_url_def mutating_def is_fetch_def
      is_pull_def is_clone_def)

text \<open>
  C9. When the target path exists and the remote cannot be read (launching or awaiting
  \<^verbatim>\<open>git remote get-url origin\<close> raises, or its output cannot be decoded),
  \<^verbatim>\<open>check_remote\<close> returns \<^verbatim>\<open>False\<close> and the repository is reported as a remote
  mismatch, not as a failed update or clone; the call that failed is the only one made.
\<close>

theorem process_repository_remote_unreadable:
  assumes "path_exists w (trace s) (joinpath w (base_dir self) (name repo))"
    and "subprocess w (trace s) [''git'', ''remote'', ''get-url'', ''origin'']
           (Some (joinpath w (base_dir self) (name repo))) = Inl e
         \<or> (\<exists>r. subprocess w (trace s) [''git'', ''remote'', ''get-url'', ''origin'']
                  (Some (joinpath w (base_dir self) (name repo))) = Inr r
                \<and> decode (stdout r) = Inl e)"
  shows "fst (check_remote w (joinpath w (base_dir self) (name repo))
                (spec_remote_url (repo_org self) (name repo)) s) = False
       \<and> task_actions w self repo s = [get_url_call (joinpath w (base_dir self) (name repo))]
       \<and> filter mutating (task_actions w self repo s) = []
       \<and> task_outcomes w self repo s = [RemoteMismatch]"
proof -
  have no: "\<not> remote_matches w (trace s) (joinpath w (base_dir self) (name repo))
           (spec_remote_url (repo_org self) (name repo))"
    using assms(2) by (auto simp: remote_matches_def)
  from process_repository_mismatch [OF assms(1) no]
  have "task_actions w self repo s = [get_url_call (joinpath w (base_dir self) (name repo))]"
    and "task_output w self repo s =
           [Processing (name repo), Exists_verifying (name repo), Remote_mismatch (name repo),
            Expected (spec_remote_url (repo_org self) (name repo)), Check_manually]"
    by (rule task_of_emit)+
  with no show ?thesis
    by (simp add: task_outcomes_def mutating_def List.map_filter_simps check_remote_eq)
qed

theorem process_repository_remote_unreadable_witness:
  "path_exists unreadable_world (trace start) ''/work/terraform-gcp-storage''
   \<and> subprocess unreadable_world (trace start) [''git'', ''remote'', ''get-url'', ''origin'']
        (Some ''/work/terraform-gcp-storage'') = Inl OSError
   \<and> fst (check_remote unreadable_world ''/work/terraform-gcp-storage''
        ''git@github.com:HappyPathway/terraform-gcp-storage.git'' start) = False
   \<and> task_actions unreadable_world (sample_initializer unreadable_world) storage start =
       [Exec [''git'', ''remote'', ''get-url'', ''origin''] (Some ''/work/terraform-gcp-storage'')]
   \<and> task_outcomes unreadable_world (sample_initializer unreadable_world) storage start =
       [RemoteMismatch]"
  using process_repository_remote_unreadable
    [of unreadable_world start "sample_initializer unreadable_world" storage OSError]
  by (simp add: get_url_call_def spec_remote_url_def)

lemma clone_raises_world_simps [simp]:
  "resolve clone_raises_world = (\<lambda>p. ''/work'')"
  "joinpath clone_raises_world = (\<lambda>b n. b @ ''/'' @ n)"
  "path_exists clone_raises_world = (\<lambda>h p. False)"
  "subprocess clone_raises_world h argv cwd =
     (if argv = [''ssh'', ''-T'', ''git@github.com''] then finished 1 [] greeting
      else if take 2 argv = [''git'', ''clone''] then Inl OSError
      else finished 0 [] [])"
  by (simp_all add: clone_raises_world_def)

subsection \<open>A repository with the expected remote is updated\<close>

lemma update_repository_summary:
  "update_repository w p s =
     (update_failure w (trace s) p = None,
      emit (update_calls w (trace s) p)
        (case update_failure w (trace s) p of None \<Rightarrow> [] | Some e \<Rightarrow> [Error_updating e]) s)"
  by (simp add: update_repository_eq update_failure_def update_calls_def split: sum.splits)

lemma process_repository_update:
  assumes "path_exists w (trace s) (joinpath w (base_dir self) (name repo))"
    and "remote_matches w (trace s) (joinpath w (base_dir self) (name repo))
           (spec_remote_url (repo_org self) (name repo))"
  shows "process_repository w self repo s =
     emit (get_url_call (joinpath w (base_dir self) (name repo))
             # update_calls w (trace s @ [get_url_call (joinpath w (base_dir self) (name repo))])
                 (joinpath w (base_dir self) (name repo)))
       ([Processing (name repo), Exists_verifying (name repo), Updating (name repo)] @
        (case update_failure w
                (trace s @ [get_url_call (joinpath w (base_dir self) (name repo))])
                (joinpath w (base_dir self) (name repo)) of
           None \<Rightarrow> [Updated_ok (name repo)]
         | Some e \<Rightarrow> [Error_updating e, Update_failed (name repo)])) s"
  by (simp add: process_repository_match [OF assms] update_repository_summary print_emit
      split: option.splits)

lemma update_calls_shape:
  "\<exists>b. prefix (update_calls w h p) [fetch_call p, branch_call p, pull_call p b]"
  by (auto simp: update_calls_def split: sum.splits)

lemma update_calls_counts:
  "filter is_clone (update_calls w h p) = []"
  "length (filter is_fetch (update_calls w h p)) = 1"
  "length (filter is_branch_lookup (update_calls w h p)) \<le> 1"
  "length (filter is_pull (update_calls w h p)) \<le> 1"
  by (simp_all add: update_calls_def split: sum.splits)

lemma branch_world_simps [simp]:
  "resolve branch_raises_world = (\<lambda>p. ''/work'')"
  "joinpath branch_raises_world = (\<lambda>b n. b @ ''/'' @ n)"
  "path_exists branch_raises_world = (\<lambda>h p. True)"
  "subprocess branch_raises_world h argv cwd =
     (if argv = [''ssh'', ''-T'', ''git@github.com''] then finished 1 [] greeting
      else if argv = [''git'', ''remote'', ''get-url'', ''origin'']
      then finished 0 (''git@github.com:HappyPathway/terraform-gcp-storage.git\<newline>'') []
      else if argv = [''git'', ''rev-parse'', ''--abbrev-ref'', ''HEAD''] then Inl OSError
      else finished 0 [] [])"
  "resolve branch_undecodable_world = (\<lambda>p. ''/work'')"
  "joinpath branch_undecodable_world = (\<lambda>b n. b @ ''/'' @ n)"
  "path_exists branch_undecodable_world = (\<lambda>h p. True)"
  "subprocess branch_undecodable_world h argv cwd =
     (if argv = [''ssh'', ''-T'', ''git@github.com''] then finished 1 [] greeting
      else if argv = [''git'', ''remote'', ''get-url'', ''origin'']
      then finished 0 (''git@github.com:HappyPathway/terraform-gcp-storage.git\<newline>'') []
      else if argv = [''git'', ''rev-parse'', ''--abbrev-ref'', ''HEAD'']
      then Inr \<lparr>returncode = 0, stdout = Invalid_utf8, stderr = Utf8 []\<rparr>
      else finished 0 [] [])"
  by (simp_all add: branch_raises_world_def branch_undecodable_world_def)

text \<open>
  C6, as amended. When the target path exists and the recorded remote, stripped, equals
  the expected URL, \<^verbatim>\<open>process_repository\<close> never clones; after reading the remote it
  makes exactly one fetch, then at most one branch lookup, then at most one pull, in this
  order, and the chain stops at the first step that raises an exception: when the fetch
  raises, the calls are the remote check and the fetch and nothing more; when the fetch
  does not raise and the branch lookup raises, or its output cannot be decoded, they are
  the remote check, the fetch and the branch lookup and nothing more. When neither the
  fetch nor the branch lookup raises and the branch name decodes, the calls are exactly
  the remote check, one fetch, one branch lookup and one pull of that branch from
  \<^verbatim>\<open>origin\<close>, whatever the exit statuses are and whether or not the pull raises.
\<close>

theorem process_repository_update_chain:
  assumes "path_exists w (trace s) (joinpath w (base_dir self) (name repo))"
    and "subprocess w (trace s) [''git'', ''remote'', ''get-url'', ''origin'']
           (Some (joinpath w (base_dir self) (name repo))) = Inr r"
    and "decode (stdout r) = Inr t"
    and "strip t = spec_remote_url (repo_org self) (name repo)"
  shows "filter is_clone (task_actions w self repo s) = []
       \<and> length (filter is_fetch (task_actions w self repo s)) = 1
       \<and> length (filter is_branch_lookup (task_actions w self repo s)) \<le> 1
       \<and> length (filter is_pull (task_actions w self repo s)) \<le> 1
       \<and> (\<exists>b. prefix (task_actions w self repo s)
                [get_url_call (joinpath w (base_dir self) (name repo)),
                 fetch_call (joinpath w (base_dir self) (name repo)),
                 branch_call (joinpath w (base_dir self) (name repo)),
                 pull_call (joinpath w (base_dir self) (name repo)) b])
       \<and> (subprocess w (trace s @ [get_url_call (joinpath w (base_dir self) (name repo))])
             [''git'', ''fetch''] (Some (joinpath w (base_dir self) (name repo))) = Inl ef
          \<longrightarrow> task_actions w self repo s =
                [get_url_call (joinpath w (base_dir self) (name repo)),
                 fetch_call (joinpath w (base_dir self) (name repo))])
       \<and> (subprocess w (trace s @ [get_url_call (joinpath w (base_dir self) (name repo))])
             [''git'', ''fetch''] (Some (joinpath w (base_dir self) (name repo))) = Inr fp
          \<and> subprocess w
               (trace s @ [get_url_call (joinpath w (base_dir self) (name repo)),
                           fetch_call (joinpath w (base_dir self) (name repo))])
               [''git'', ''rev-parse'', ''--abbrev-ref'', ''HEAD'']
               (Some (joinpath w (base_dir self) (name repo))) = Inl eb
          \<longrightarrow> task_actions w self repo s =
                [get_url_call (joinpath w (base_dir self) (name repo)),
                 fetch_call (joinpath w (base_dir self) (name repo)),
                 branch_call (joinpath w (base_dir self) (name repo))])
       \<and> (subprocess w (trace s @ [get_url_call (joinpath w (base_dir self) (name repo))])
             [''git'', ''fetch''] (Some (joinpath w (base_dir self) (name repo))) = Inr fp
          \<and> subprocess w
               (trace s @ [get_url_call (joinpath w (base_dir self) (name repo)),
                           fetch_call (joinpath w (base_dir self) (name repo))])
               [''git'', ''rev-parse'', ''--abbrev-ref'', ''HEAD'']
               (Some (joinpath w (base_dir self) (name repo))) = Inr bp
          \<and> decode (stdout bp) = Inl ed
          \<longrightarrow> task_actions w self repo s =
                [get_url_call (joinpath w (base_dir self) (name repo)),
                 fetch_call (joinpath w (base_dir self) (name repo)),
                 branch_call (joinpath w (base_dir self) (name repo))])
       \<and> (subprocess w (trace s @ [get_url_call (joinpath w (base_dir self) (name repo))])
             [''git'', ''fetch''] (Some (joinpath w (base_dir self) (name repo))) = Inr fp
          \<and> subprocess w
               (trace s @ [get_url_call (joinpath w (base_dir self) (name repo)),
                           fetch_call (joinpath w (base_dir self) (name repo))])
               [''git'', ''rev-parse'', ''--abbrev-ref'', ''HEAD'']
               (Some (joinpath w (base_dir self) (name repo))) = Inr bp
          \<and> decode (stdout bp) = Inr tb
          \<longrightarrow> task_actions w self repo s =
                [get_url_call (joinpath w (base_dir self) (name repo)),
                 fetch_call (joinpath w (base_dir self) (name repo)),
                 branch_call (joinpath w (base_dir self) (name repo)),
                 pull_call (joinpath w (base_dir self) (name repo)) (strip tb)])"
proof -
  let ?p = "joinpath w (base_dir self) (name repo)"
  let ?h = "trace s @ [get_url_call ?p]"
  have m: "remote_matches w (trace s) ?p (spec_remote_url (repo_org self) (name repo))"
    using assms(2-4) by (simp add: remote_matches_def)
  have acts: "task_actions w self repo s = get_url_call ?p # update_calls w ?h ?p"
    by (rule task_of_emit(1) [OF process_repository_update [OF assms(1) m]])
  have c1: "filter is_clone (task_actions w self repo s) = []"
    by (simp add: acts update_calls_counts)
  have c2: "length (filter is_fetch (task_actions w self repo s)) = 1"
    by (simp add: acts update_calls_counts)
  have c3: "length (filter is_branch_lookup (task_actions w self repo s)) \<le> 1"
    using update_calls_counts(3) [of w ?h ?p] by (simp add: acts)
  have c4: "length (filter is_pull (task_actions w self repo s)) \<le> 1"
    using update_calls_counts(4) [of w ?h ?p] by (simp add: acts)
  have c5: "\<exists>b. prefix (task_actions w self repo s)
                [get_url_call ?p, fetch_call ?p, branch_call ?p, pull_call ?p b]"
    using update_calls_shape [of w ?h ?p] by (simp add: acts)
  have c6: "subprocess w ?h [''git'', ''fetch''] (Some ?p) = Inl ef
          \<longrightarrow> task_actions w self repo s = [get_url_call ?p, fetch_call ?p]"
    by (simp add: acts update_calls_def)
  have c7: "subprocess w ?h [''git'', ''fetch''] (Some ?p) = Inr fp
          \<and> subprocess w (trace s @ [get_url_call ?p, fetch_call ?p])
               [''git'', ''rev-parse'', ''--abbrev-ref'', ''HEAD''] (Some ?p) = Inl eb
          \<longrightarrow> task_actions w self repo s = [get_url_call ?p, fetch_call ?p, branch_call ?p]"
    by (simp add: acts update_calls_def)
  have c8: "subprocess w ?h [''git'', ''fetch''] (Some ?p) = Inr fp
          \<and> subprocess w (trace s @ [get_url_call ?p, fetch_call ?p])
               [''git'', ''rev-parse'', ''--abbrev-ref'', ''HEAD''] (Some ?p) = Inr bp
          \<and> decode (stdout bp) = Inl ed
          \<longrightarrow> task_actions w self repo s = [get_url_call ?p, fetch_call ?p, branch_call ?p]"
    by (simp add: acts update_calls_def)
  have c9: "subprocess w ?h [''git'', ''fetch''] (Some ?p) = Inr fp
          \<and> subprocess w (trace s @ [get_url_call ?p, fetch_call ?p])
               [''git'', ''rev-parse'', ''--abbrev-ref'', ''HEAD''] (Some ?p) = Inr bp
          \<and> decode (stdout bp) = Inr tb
          \<longrightarrow> task_actions w self repo s =
                [get_url_call ?p, fetch_call ?p, branch_call ?p, pull_call ?p (strip tb)]"
    by (simp add: acts update_calls_def)
  show ?thesis
    by (rule conjI, rule c1, rule conjI, rule c2, rule conjI, rule c3, rule conjI, rule c4,
        rule conjI, rule c5, rule conjI, rule c6, rule conjI, rule c7, rule conjI, rule c8,
        rule c9)
qed

theorem process_repository_update_chain_witness:
  "path_exists cloned_world (trace start) ''/work/terraform-gcp-storage''
   \<and> subprocess cloned_world (trace start) [''git'', ''remote'', ''get-url'', ''origin'']
        (Some ''/work/terraform-gcp-storage'') =
      finished 0 ''git@github.com:HappyPathway/terraform-gcp-storage.git\<newline>'' []
   \<and> task_actions cloned_world (sample_initializer cloned_world) storage start =
       [Exec [''git'', ''remote'', ''get-url'', ''origin''] (Some ''/work/terraform-gcp-storage''),
        Exec [''git'', ''fetch''] (Some ''/work/terraform-gcp-storage''),
        Exec [''git'', ''rev-parse'', ''--abbrev-ref'', ''HEAD'']
          (Some ''/work/terraform-gcp-storage''),
        Exec [''git'', ''pull'', ''origin'', ''main''] (Some ''/work/terraform-gcp-storage'')]
   \<and> filter is_clone (task_actions cloned_world (sample_initializer cloned_world) storage start)
       = []
   \<and> subprocess fetch_raises_world
        [Exec [''git'', ''remote'', ''get-url'', ''origin''] (Some ''/work/terraform-gcp-storage'')]
        [''git'', ''fetch''] (Some ''/work/terraform-gcp-storage'') = Inl OSError
   \<and> task_actions fetch_raises_world (sample_initializer fetch_raises_world) storage start =
       [Exec [''git'', ''remote'', ''get-url'', ''origin''] (Some ''/work/terraform-gcp-storage''),
        Exec [''git'', ''fetch''] (Some ''/work/terraform-gcp-storage'')]
   \<and> subprocess branch_raises_world
        [Exec [''git'', ''remote'', ''get-url'', ''origin''] (Some ''/work/terraform-gcp-storage''),
         Exec [''git'', ''fetch''] (Some ''/work/terraform-gcp-storage'')]
        [''git'', ''rev-parse'', ''--abbrev-ref'', ''HEAD'']
        (Some ''/work/terraform-gcp-storage'') = Inl OSError
   \<and> task_actions branch_raises_world (sample_initializer branch_raises_world) storage start =
       [Exec [''git'', ''remote'', ''get-url'', ''origin''] (Some ''/work/terraform-gcp-storage''),
        Exec [''git'', ''fetch''] (Some ''/work/terraform-gcp-storage''),
        Exec [''git'', ''rev-parse'', ''--abbrev-ref'', ''HEAD'']
          (Some ''/work/terraform-gcp-storage'')]
   \<and> task_actions branch_undecodable_world (sample_initializer branch_undecodable_world)
        storage start =
       [Exec [''git'', ''remote'', ''get-url'', ''origin''] (Some ''/work/terraform-gcp-storage''),
        Exec [''git'', ''fetch''] (Some ''/work/terraform-gcp-storage''),
        Exec [''git'', ''rev-parse'', ''--abbrev-ref'', ''HEAD'']
          (Some ''/work/terraform-gcp-storage'')]"
proof -
  let ?url = "''git@github.com:HappyPathway/terraform-gcp-storage.git\<newline>''"
  let ?remote = "\<lparr>returncode = 0, stdout = Utf8 ?url, stderr = Utf8 []\<rparr>"
  let ?quiet = "\<lparr>returncode = 0, stdout = Utf8 [], stderr = Utf8 []\<rparr>"
  have a: "task_actions cloned_world (sample_initializer cloned_world) storage start =
       [Exec [''git'', ''remote'', ''get-url'', ''origin''] (Some ''/work/terraform-gcp-storage''),
        Exec [''git'', ''fetch''] (Some ''/work/terraform-gcp-storage''),
        Exec [''git'', ''rev-parse'', ''--abbrev-ref'', ''HEAD'']
          (Some ''/work/terraform-gcp-storage''),
        Exec [''git'', ''pull'', ''origin'', ''main''] (Some ''/work/terraform-gcp-storage'')]
     \<and> filter is_clone
         (task_actions cloned_world (sample_initializer cloned_world) storage start) = []"
    using process_repository_update_chain
      [where w = cloned_world and s = start and self = "sample_initializer cloned_world"
         and repo = storage and r = ?remote and t = ?url and fp = ?quiet
         and bp = "\<lparr>returncode = 0, stdout = Utf8 ''main\<newline>'', stderr = Utf8 []\<rparr>"
         and tb = "''main\<newline>''"]
    by (simp add: finished_def get_url_call_def fetch_call_def branch_call_def pull_call_def
        spec_remote_url_def is_clone_def)
  have b: "task_actions fetch_raises_world (sample_initializer fetch_raises_world) storage start =
       [Exec [''git'', ''remote'', ''get-url'', ''origin''] (Some ''/work/terraform-gcp-storage''),
        Exec [''git'', ''fetch''] (Some ''/work/terraform-gcp-storage'')]"
    using process_repository_update_chain
      [where w = fetch_raises_world and s = start
         and self = "sample_initializer fetch_raises_world"
         and repo = storage and r = ?remote and t = ?url and ef = OSError]
    by (simp add: finished_def get_url_call_def fetch_call_def spec_remote_url_def)
  have c: "task_actions branch_raises_world (sample_initializer branch_raises_world) storage start =
       [Exec [''git'', ''remote'', ''get-url'', ''origin''] (Some ''/work/terraform-gcp-storage''),
        Exec [''git'', ''fetch''] (Some ''/work/terraform-gcp-storage''),
        Exec [''git'', ''rev-parse'', ''--abbrev-ref'', ''HEAD'']
          (Some ''/work/terraform-gcp-storage'')]"
    using process_repository_update_chain
      [where w = branch_raises_world and s = start
         and self = "sample_initializer branch_raises_world"
         and repo = storage and r = ?remote and t = ?url and fp = ?quiet and eb = OSError]
    by (simp add: finished_def get_url_call_def fetch_call_def branch_call_def
        spec_remote_url_def)
  have d: "task_actions branch_undecodable_world (sample_initializer branch_undecodable_world)
        storage start =
       [Exec [''git'', ''remote'', ''get-url'', ''origin''] (Some ''/work/terraform-gcp-storage''),
        Exec [''git'', ''fetch''] (Some ''/work/terraform-gcp-storage''),
        Exec [''git'', ''rev-parse'', ''--abbrev-ref'', ''HEAD'']
          (Some ''/work/terraform-gcp-storage'')]"
    using process_repository_update_chain
      [where w = branch_undecodable_world and s = start
         and self = "sample_initializer branch_undecodable_world"
         and repo = storage and r = ?remote and t = ?url and fp = ?quiet
         and bp = "\<lparr>returncode = 0, stdout = Invalid_utf8, stderr = Utf8 []\<rparr>"
         and ed = UnicodeDecodeError]
    by (simp add: finished_def get_url_call_def fetch_call_def branch_call_def
        spec_remote_url_def)
  from a b c d show ?thesis by (simp add: finished_def is_clone_def)
qed

text \<open>
  C6, the counterexample. The claim as stated fails where a step raises: when \<^verbatim>\<open>git fetch\<close> cannot be launched
  in a clone whose remote is the expected one, there is neither a branch lookup nor a pull.
\<close>

theorem process_repository_update_chain_counterexample:
  "path_exists fetch_raises_world (trace start) ''/work/terraform-gcp-storage''
   \<and> remote_matches fetch_raises_world (trace start) ''/work/terraform-gcp-storage''
        ''git@github.com:HappyPathway/terraform-gcp-storage.git''
   \<and> task_actions fetch_raises_world (sample_initializer fetch_raises_world) storage start =
        [Exec [''git'', ''remote'', ''get-url'', ''origin''] (Some ''/work/terraform-gcp-storage''),
         Exec [''git'', ''fetch''] (Some ''/work/terraform-gcp-storage'')]
   \<and> length (filter is_branch_lookup
        (task_actions fetch_raises_world (sample_initializer fetch_raises_world) storage start))
       = 0
   \<and> length (filter is_pull
        (task_actions fetch_raises_world (sample_initializer fetch_raises_world) storage start))
       = 0"
proof -
  have m: "remote_matches fetch_raises_world (trace start)
             (joinpath fetch_raises_world (base_dir (sample_initializer fetch_raises_world))
                (name storage))
             (spec_remote_url (repo_org (sample_initializer fetch_raises_world)) (name storage))"
    by (simp add: remote_matches_def finished_def spec_remote_url_def)
  have e: "path_exists fetch_raises_world (trace start)
             (joinpath fetch_raises_world (base_dir (sample_initializer fetch_raises_world))
                (name storage))"
    by simp
  have "task_actions fetch_raises_world (sample_initializer fetch_raises_world) storage start =
        [Exec [''git'', ''remote'', ''get-url'', ''origin''] (Some ''/work/terraform-gcp-storage''),
         Exec [''git'', ''fetch''] (Some ''/work/terraform-gcp-storage'')]"
    by (simp add: task_of_emit(1) [OF process_repository_update [OF e m]] update_calls_def
        get_url_call_def fetch_call_def)
  with m show ?thesis
    by (simp add: is_branch_lookup_def is_pull_def spec_remote_url_def)
qed

subsection \<open>Exceptions become failures, exit statuses do not\<close>

lemma process_repository_emit:
  "process_repository w self repo s =
     emit (task_actions w self repo s) (task_output w self repo s) s"
proof (cases "path_exists w (trace s) (joinpath w (base_dir self) (name repo))")
  case False
  show ?thesis
    by (simp add: task_actions_def task_output_def process_repository_absent [OF False]
        split: sum.splits)
next
  case True
  show ?thesis
  proof (cases "remote_matches w (trace s) (joinpath w (base_dir self) (name repo))
                  (spec_remote_url (repo_org self) (name repo))")
    case m: True
    show ?thesis
      by (simp add: task_actions_def task_output_def process_repository_update [OF True m])
  next
    case m: False
    show ?thesis
      by (simp add: task_actions_def task_output_def process_repository_mismatch [OF True m])
  qed
qed

lemma task_outcomes_absent:
  assumes "\<not> path_exists w (trace s) (joinpath w (base_dir self) (name repo))"
  shows "task_outcomes w self repo s =
     (case subprocess w (trace s)
             [''git'', ''clone'', spec_remote_url (repo_org self) (name repo),
              joinpath w (base_dir self) (name repo)] None of
        Inl e \<Rightarrow> [CloneFailed]
      | Inr r \<Rightarrow> [Cloned])"
  by (simp add: task_outcomes_def task_output_def process_repository_absent [OF assms]
      List.map_filter_simps split: sum.splits)

lemma task_outcomes_update:
  assumes "path_exists w (trace s) (joinpath w (base_dir self) (name repo))"
    and "remote_matches w (trace s) (joinpath w (base_dir self) (name repo))
           (spec_remote_url (repo_org self) (name repo))"
  shows "task_outcomes w self repo s =
     (case update_failure w
             (trace s @ [get_url_call (joinpath w (base_dir self) (name repo))])
             (joinpath w (base_dir self) (name repo)) of
        Some e \<Rightarrow> [UpdateFailed]
      | None \<Rightarrow> [Updated])"
  by (simp add: task_outcomes_def task_output_def process_repository_update [OF assms]
      List.map_filter_simps split: option.splits)

lemma task_outcomes_mismatch:
  assumes "path_exists w (trace s) (joinpath w (base_dir self) (name repo))"
    and "\<not> remote_matches w (trace s) (joinpath w (base_dir self) (name repo))
           (spec_remote_url (repo_org self) (name repo))"
  shows "task_outcomes w self repo s = [RemoteMismatch]"
  by (simp add: task_outcomes_def task_output_def process_repository_mismatch [OF assms]
      List.map_filter_simps)

lemma length_task_outcomes: "length (task_outcomes w self repo s) = 1"
proof (cases "path_exists w (trace s) (joinpath w (base_dir self) (name repo))")
  case False
  then show ?thesis by (simp add: task_outcomes_absent split: sum.splits)
next
  case True
  then show ?thesis
    by (cases "remote_matches w (trace s) (joinpath w (base_dir self) (name repo))
                  (spec_remote_url (repo_org self) (name repo))")
       (simp_all add: task_outcomes_update task_outcomes_mismatch split: option.splits)
qed

lemma map_filter_append:
  "List.map_filter f (xs @ ys) = List.map_filter f xs @ List.map_filter f ys"
  by (simp add: List.map_filter_def)

lemma gather_outcomes:
  "\<exists>as ms. gather w self repos s = emit as ms s
      \<and> length (List.map_filter reported ms) = length repos"
proof (induction repos arbitrary: s)
  case Nil
  show ?case
    by (rule exI [of _ "[]"], rule exI [of _ "[]"]) (simp add: emit_def List.map_filter_simps)
next
  case (Cons r repos)
  obtain as ms where g: "gather w self repos (process_repository w self r s) =
      emit as ms (process_repository w self r s)"
    and l: "length (List.map_filter reported ms) = length repos"
    using Cons.IH by blast
  have "gather w self (r # repos) s =
      emit (task_actions w self r s @ as) (task_output w self r s @ ms) s"
    using g by (simp add: process_repository_emit [of w self r s])
  moreover have "length (List.map_filter reported (task_output w self r s @ ms)) =
      length (r # repos)"
    using l length_task_outcomes [of w self r s]
    by (simp add: map_filter_append task_outcomes_def)
  ultimately show ?case by (intro exI conjI)
qed

text \<open>
  C2, as amended. An exception raised while a subprocess of the update or of the clone is
  launched, awaited or decoded, at any step, is caught: the task reports a failed update or
  a failed clone, and it reports success when no step raises, whatever the exit statuses of
  the subprocesses are. Nothing propagates, and no task is aborted by another: whatever the
  world answers, each repository of the list reports exactly one outcome.
\<close>

theorem subprocess_exceptions_become_failures:
  "(\<not> path_exists w (trace s) (joinpath w (base_dir self) (name repo))
      \<longrightarrow> task_outcomes w self repo s =
            (case subprocess w (trace s)
                    [''git'', ''clone'', spec_remote_url (repo_org self) (name repo),
                     joinpath w (base_dir self) (name repo)] None of
               Inl e \<Rightarrow> [CloneFailed]
             | Inr r \<Rightarrow> [Cloned]))
   \<and> (path_exists w (trace s) (joinpath w (base_dir self) (name repo))
        \<and> remote_matches w (trace s) (joinpath w (base_dir self) (name repo))
             (spec_remote_url (repo_org self) (name repo))
      \<longrightarrow> task_outcomes w self repo s =
            (case update_failure w
                    (trace s @ [get_url_call (joinpath w (base_dir self) (name repo))])
                    (joinpath w (base_dir self) (name repo)) of
               Some e \<Rightarrow> [UpdateFailed]
             | None \<Rightarrow> [Updated]))
   \<and> length (List.map_filter reported
         (drop (length (out s)) (out (gather w self repos s)))) = length repos"
proof -
  obtain as ms where "gather w self repos s = emit as ms s"
    and "length (List.map_filter reported ms) = length repos"
    using gather_outcomes by blast
  then have "length (List.map_filter reported
         (drop (length (out s)) (out (gather w self repos s)))) = length repos"
    by simp
  then show ?thesis
    using task_outcomes_absent [of w s self repo] task_outcomes_update [of w s self repo]
    by blast
qed

theorem subprocess_exceptions_become_failures_witness:
  "\<not> path_exists clone_raises_world (trace start) ''/work/terraform-gcp-storage''
   \<and> subprocess clone_raises_world (trace start)
        [''git'', ''clone'', ''git@github.com:HappyPathway/terraform-gcp-storage.git'',
         ''/work/terraform-gcp-storage''] None = Inl OSError
   \<and> task_outcomes clone_raises_world (sample_initializer clone_raises_world) storage start =
        [CloneFailed]
   \<and> path_exists fetch_raises_world (trace start) ''/work/terraform-gcp-storage''
   \<and> update_failure fetch_raises_world
        [Exec [''git'', ''remote'', ''get-url'', ''origin''] (Some ''/work/terraform-gcp-storage'')]
        ''/work/terraform-gcp-storage'' = Some OSError
   \<and> task_outcomes fetch_raises_world (sample_initializer fetch_raises_world) storage start =
        [UpdateFailed]
   \<and> length (List.map_filter reported
        (out (gather clone_raises_world (sample_initializer clone_raises_world)
                config_repositories start))) = 6"
proof -
  have m: "remote_matches fetch_raises_world (trace start)
             (joinpath fetch_raises_world (base_dir (sample_initializer fetch_raises_world))
                (name storage))
             (spec_remote_url (repo_org (sample_initializer fetch_raises_world)) (name storage))"
    by (simp add: remote_matches_def finished_def spec_remote_url_def)
  have f: "update_failure fetch_raises_world
        [Exec [''git'', ''remote'', ''get-url'', ''origin''] (Some ''/work/terraform-gcp-storage'')]
        ''/work/terraform-gcp-storage'' = Some OSError"
    by (simp add: update_failure_def)
  have a: "task_outcomes clone_raises_world (sample_initializer clone_raises_world) storage start =
        [CloneFailed]"
    using subprocess_exceptions_become_failures
      [of clone_raises_world start "sample_initializer clone_raises_world" storage "[]"]
    by (simp add: spec_remote_url_def)
  have b: "task_outcomes fetch_raises_world (sample_initializer fetch_raises_world) storage start =
        [UpdateFailed]"
    using subprocess_exceptions_become_failures
      [of fetch_raises_world start "sample_initializer fetch_raises_world" storage "[]"] m f
    by (simp add: get_url_call_def)
  have c: "length (List.map_filter reported
        (out (gather clone_raises_world (sample_initializer clone_raises_world)
                config_repositories start))) = 6"
    using subprocess_exceptions_become_failures
      [of clone_raises_world start "sample_initializer clone_raises_world" storage
          config_repositories]
    by (simp add: config_repositories_def)
  from a b c f show ?thesis by simp
qed

text \<open>
  C2, the counterexample. The claim as stated fails for a non-zero exit status: \<^verbatim>\<open>git clone\<close> exits with
  status 128 and the task reports a successful clone.
\<close>

theorem subprocess_exceptions_become_failures_counterexample:
  "subprocess clone_exits_128_world (trace start)
        [''git'', ''clone'', ''git@github.com:HappyPathway/terraform-gcp-storage.git'',
         ''/work/terraform-gcp-storage''] None
     = finished 128 [] ''fatal: Could not read from remote repository.''
   \<and> task_output clone_exits_128_world (sample_initializer clone_exits_128_world) storage start =
        [Processing ''terraform-gcp-storage'', Cloning ''terraform-gcp-storage'',
         Cloned_ok ''terraform-gcp-storage'']
   \<and> task_outcomes clone_exits_128_world (sample_initializer clone_exits_128_world) storage start
     = [Cloned]"
proof -
  have e: "\<not> path_exists clone_exits_128_world (trace start)
             (joinpath clone_exits_128_world (base_dir (sample_initializer clone_exits_128_world))
                (name storage))"
    by simp
  show ?thesis
    by (simp add: task_outcomes_def task_output_def process_repository_absent [OF e]
        spec_remote_url_def finished_def List.map_filter_simps)
qed

lemma more_world_simps [simp]:
  "resolve denied_world = (\<lambda>p. ''/work'')"
  "joinpath denied_world = (\<lambda>b n. b @ ''/'' @ n)"
  "path_exists denied_world = (\<lambda>h p. False)"
  "subprocess denied_world h argv cwd =
     (if argv = [''ssh'', ''-T'', ''git@github.com''] then finished 255 [] denied
      else finished 0 [] [])"
  "resolve no_ssh_world = (\<lambda>p. ''/work'')"
  "joinpath no_ssh_world = (\<lambda>b n. b @ ''/'' @ n)"
  "path_exists no_ssh_world = (\<lambda>h p. False)"
  "subprocess no_ssh_world h argv cwd =
     (if argv = [''ssh'', ''-T'', ''git@github.com''] then Inl OSError
      else finished 0 [] [])"
  by (simp_all add: denied_world_def no_ssh_world_def)

lemma marker_samples [simp]:
  "sublist ''successfully authenticated'' (lower greeting)"
  "\<not> sublist ''successfully authenticated'' (lower denied)"
  by code_simp+

subsection \<open>The SSH probe\<close>

text \<open>
  C8. \<^verbatim>\<open>verify_git_ssh\<close> returns \<^verbatim>\<open>True\<close> exactly when the probe ran and the text of
  its error stream, in lower case, contains the marker \<^verbatim>\<open>successfully authenticated\<close>.
  Two probes with the same error stream give the same result, whatever their exit statuses
  and standard outputs; an exception while launching or awaiting the probe, or while
  decoding its error stream, gives \<^verbatim>\<open>False\<close>.
\<close>

theorem verify_git_ssh_scans_stderr:
  "(fst (verify_git_ssh w s) \<longleftrightarrow>
      (\<exists>p t. subprocess w (trace s) [''ssh'', ''-T'', ''git@github.com''] None = Inr p
         \<and> decode (stderr p) = Inr t
         \<and> sublist ''successfully authenticated'' (lower t)))
   \<and> (subprocess w (trace s) [''ssh'', ''-T'', ''git@github.com''] None = Inr p
        \<and> subprocess w' (trace s') [''ssh'', ''-T'', ''git@github.com''] None = Inr p'
        \<and> stderr p' = stderr p
      \<longrightarrow> fst (verify_git_ssh w' s') = fst (verify_git_ssh w s))
   \<and> (subprocess w (trace s) [''ssh'', ''-T'', ''git@github.com''] None = Inl e
      \<longrightarrow> fst (verify_git_ssh w s) = False)
   \<and> (subprocess w (trace s) [''ssh'', ''-T'', ''git@github.com''] None = Inr p
        \<and> decode (stderr p) = Inl e
      \<longrightarrow> fst (verify_git_ssh w s) = False)"
  by (auto simp: verify_git_ssh_eq split: sum.splits)

theorem verify_git_ssh_scans_stderr_witness:
  "subprocess fresh_world (trace start) [''ssh'', ''-T'', ''git@github.com''] None =
     finished 1 [] greeting
   \<and> fst (verify_git_ssh fresh_world start) = True
   \<and> subprocess denied_world (trace start) [''ssh'', ''-T'', ''git@github.com''] None =
     finished 255 [] denied
   \<and> fst (verify_git_ssh denied_world start) = False
   \<and> subprocess no_ssh_world (trace start) [''ssh'', ''-T'', ''git@github.com''] None =
     Inl OSError
   \<and> fst (verify_git_ssh no_ssh_world start) = False"
proof -
  have a: "fst (verify_git_ssh fresh_world start) = True"
    using verify_git_ssh_scans_stderr [of fresh_world start]
    by (simp add: finished_def)
  have b: "fst (verify_git_ssh denied_world start) = False"
    using verify_git_ssh_scans_stderr [of denied_world start]
    by (simp add: finished_def)
  have c: "fst (verify_git_ssh no_ssh_world start) = False"
    using verify_git_ssh_scans_stderr [of no_ssh_world start _ _ _ _ OSError]
    by simp
  from a b c show ?thesis by simp
qed

subsection \<open>The exit status\<close>

lemma verify_git_ssh_trace:
  "trace s = trace s' \<Longrightarrow> fst (verify_git_ssh w s) = fst (verify_git_ssh w s')"
  by (simp add: verify_git_ssh_eq split: sum.splits)

lemma verify_git_ssh_emit:
  "\<exists>ms. verify_git_ssh w s = (fst (verify_git_ssh w s), emit [ssh_call] ms s)
        \<and> filter is_processing ms = []"
proof (cases "subprocess w (trace s) [''ssh'', ''-T'', ''git@github.com''] None")
  case (Inl e)
  then have "verify_git_ssh w s =
      (fst (verify_git_ssh w s), emit [ssh_call] [Error_verifying e] s)
      \<and> filter is_processing [Error_verifying e] = []"
    by (simp add: verify_git_ssh_eq)
  then show ?thesis by (intro exI)
next
  case (Inr p)
  show ?thesis
  proof (cases "decode (stderr p)")
    case (Inl e)
    with Inr have "verify_git_ssh w s =
        (fst (verify_git_ssh w s), emit [ssh_call] [Error_verifying e] s)
        \<and> filter is_processing [Error_verifying e] = []"
      by (simp add: verify_git_ssh_eq)
    then show ?thesis by (intro exI)
  next
    case t: (Inr t)
    with Inr have "verify_git_ssh w s = (fst (verify_git_ssh w s), emit [ssh_call] [] s)
        \<and> filter is_processing [] = []"
      by (simp add: verify_git_ssh_eq)
    then show ?thesis by (intro exI)
  qed
qed

lemma run_refused:
  assumes "\<not> fst (verify_git_ssh w (makedirs (base_dir self) s))"
  shows "\<exists>ms. run w self s = (Inl (SystemExit 1), emit [Makedirs (base_dir self), ssh_call] ms s)
            \<and> filter is_processing ms = []"
proof -
  let ?s3 = "emit [Makedirs (base_dir self)]
               [Initializing_project (project_name self), Verifying_access] s"
  obtain ms where v: "verify_git_ssh w ?s3 = (fst (verify_git_ssh w ?s3), emit [ssh_call] ms ?s3)"
    and p: "filter is_processing ms = []"
    using verify_git_ssh_emit by blast
  have "fst (verify_git_ssh w ?s3) = fst (verify_git_ssh w (makedirs (base_dir self) s))"
    by (rule verify_git_ssh_trace) (simp add: makedirs_emit)
  with assms v have "verify_git_ssh w ?s3 = (False, emit [ssh_call] ms ?s3)"
    by simp
  then have "run w self s =
      (Inl (SystemExit 1),
       emit [Makedirs (base_dir self), ssh_call]
         ([Initializing_project (project_name self), Verifying_access] @ ms @
          [Access_failed, Check_ssh_configuration]) s)"
    by (simp add: run_def Let_def print_emit makedirs_emit)
  moreover have "filter is_processing
      ([Initializing_project (project_name self), Verifying_access] @ ms @
       [Access_failed, Check_ssh_configuration]) = []"
    using p by simp
  ultimately show ?thesis by (intro exI conjI)
qed

lemma run_verified:
  assumes "fst (verify_git_ssh w (makedirs (base_dir self) s))"
  shows "fst (run w self s) = Inr ()"
proof -
  let ?s3 = "emit [Makedirs (base_dir self)]
               [Initializing_project (project_name self), Verifying_access] s"
  obtain ms where v: "verify_git_ssh w ?s3 = (fst (verify_git_ssh w ?s3), emit [ssh_call] ms ?s3)"
    using verify_git_ssh_emit by blast
  have "fst (verify_git_ssh w ?s3) = fst (verify_git_ssh w (makedirs (base_dir self) s))"
    by (rule verify_git_ssh_trace) (simp add: makedirs_emit)
  with assms v have "verify_git_ssh w ?s3 = (True, emit [ssh_call] ms ?s3)"
    by simp
  then show ?thesis
    by (simp add: run_def Let_def print_emit makedirs_emit)
qed

lemma exit_code_run:
  "exit_code (fst (run w self s)) =
     (if fst (verify_git_ssh w (makedirs (base_dir self) s)) then 0 else 1)"
proof (cases "fst (verify_git_ssh w (makedirs (base_dir self) s))")
  case True
  then show ?thesis by (simp add: run_verified)
next
  case False
  from run_refused [OF False] obtain ms where
    "run w self s = (Inl (SystemExit 1), emit [Makedirs (base_dir self), ssh_call] ms s)"
    by blast
  with False show ?thesis by simp
qed

text \<open>
  \<^verbatim>\<open>run\<close> ends with \<^verbatim>\<open>SystemExit(1)\<close> when the SSH verification fails and returns
  when it succeeds, whatever happens to the repositories afterwards (the statement holds
  in every world, so also in those where every clone or update fails). When the
  verification fails, the run makes no call beyond creating the base directory and the
  probe itself, and no repository task is started.
\<close>

lemma run_exit_status:
  "exit_code (fst (run w self s)) =
     (if fst (verify_git_ssh w (makedirs (base_dir self) s)) then 0 else 1)
   \<and> (\<not> fst (verify_git_ssh w (makedirs (base_dir self) s)) \<longrightarrow>
        drop (length (trace s)) (trace (snd (run w self s))) =
          [Makedirs (base_dir self), ssh_call]
        \<and> filter is_processing (drop (length (out s)) (out (snd (run w self s)))) = [])"
proof -
  have a: "\<not> fst (verify_git_ssh w (makedirs (base_dir self) s)) \<longrightarrow>
        drop (length (trace s)) (trace (snd (run w self s))) =
          [Makedirs (base_dir self), ssh_call]
        \<and> filter is_processing (drop (length (out s)) (out (snd (run w self s)))) = []"
  proof
    assume "\<not> fst (verify_git_ssh w (makedirs (base_dir self) s))"
    from run_refused [OF this] obtain ms where
      "run w self s = (Inl (SystemExit 1), emit [Makedirs (base_dir self), ssh_call] ms s)"
      and "filter is_processing ms = []"
      by blast
    then show "drop (length (trace s)) (trace (snd (run w self s))) =
          [Makedirs (base_dir self), ssh_call]
        \<and> filter is_processing (drop (length (out s)) (out (snd (run w self s)))) = []"
      by simp
  qed
  show ?thesis
    by (rule conjI, rule exit_code_run, rule a)
qed

lemma run_exit_status_samples:
  "fst (verify_git_ssh denied_world (makedirs ''/work'' start)) = False
   \<and> exit_code (fst (run denied_world (sample_initializer denied_world) start)) = 1
   \<and> trace (snd (run denied_world (sample_initializer denied_world) start)) =
       [Makedirs ''/work'', Exec [''ssh'', ''-T'', ''git@github.com''] None]
   \<and> fst (verify_git_ssh clone_raises_world (makedirs ''/work'' start)) = True
   \<and> exit_code (fst (run clone_raises_world (sample_initializer clone_raises_world) start))
       = 0"
proof -
  have d: "fst (verify_git_ssh denied_world (makedirs ''/work'' start)) = False"
    by (simp add: verify_git_ssh_eq finished_def)
  have c: "fst (verify_git_ssh clone_raises_world (makedirs ''/work'' start)) = True"
    by (simp add: verify_git_ssh_eq finished_def)
  from run_exit_status [of denied_world "sample_initializer denied_world" start] d
  have "exit_code (fst (run denied_world (sample_initializer denied_world) start)) = 1
   \<and> trace (snd (run denied_world (sample_initializer denied_world) start)) =
       [Makedirs ''/work'', Exec [''ssh'', ''-T'', ''git@github.com''] None]"
    by (simp add: ssh_call_def)
  moreover
  from run_exit_status [of clone_raises_world "sample_initializer clone_raises_world" start] c
  have "exit_code (fst (run clone_raises_world (sample_initializer clone_raises_world) start))
       = 0"
    by simp
  ultimately show ?thesis using c d by simp
qed

text \<open>
  C3. The claim is about the exit status of the process: 1 exactly when the SSH
  verification fails, 0 otherwise. \<^verbatim>\<open>run\<close> does that, as shown above, but the process
  never gets to \<^verbatim>\<open>run\<close>. \<^verbatim>\<open>main\<close> raises \<^verbatim>\<open>NameError\<close> while it builds its
  configuration: in every world and with either value of \<^verbatim>\<open>--debug\<close> it ends with exit
  status 1 without having made a call or printed a line, so without an SSH verification
  that failed. This is so in the empty workspace, where the verification would succeed.
  Run as a script, the file never calls \<^verbatim>\<open>main\<close> and ends with exit status 0, again
  without a call.
\<close>

theorem main_exit_code_without_ssh:
  "exit_code (fst (main w debug s)) = 1
   \<and> snd (main w debug s) = s
   \<and> fst (verify_git_ssh fresh_world (makedirs (resolve fresh_world ''..'') start)) = True
   \<and> exit_code (fst (main fresh_world False start)) = 1
   \<and> trace (snd (main fresh_world False start)) = []
   \<and> exit_code (fst (script w s)) = 0
   \<and> snd (script w s) = s"
proof -
  have m: "\<And>w debug s. main w debug s = (Inl (Uncaught NameError), s)"
    by (simp add: main_def config_def)
  have v: "fst (verify_git_ssh fresh_world (makedirs (resolve fresh_world ''..'') start)) = True"
    by (simp add: verify_git_ssh_eq finished_def)
  from m v show ?thesis by (simp add: script_def)
qed

subsection \<open>The remote URL\<close>

text \<open>
  C7. The expected remote URL is \<^verbatim>\<open>git@github.com:<org>/<name>.git\<close>, a function of
  the organisation and of the name alone. With the name fixed, two organisations give the
  same URL only if they are equal, and likewise for two names with the organisation
  fixed. It is the URL the recorded remote is compared with when the target path exists,
  and the URL that is cloned when it does not.
\<close>

theorem expected_remote_url:
  "spec_remote_url org n = ''git@github.com:'' @ org @ ''/'' @ n @ ''.git''
   \<and> (spec_remote_url org n = spec_remote_url org' n \<longleftrightarrow> org = org')
   \<and> (spec_remote_url org n = spec_remote_url org n' \<longleftrightarrow> n = n')
   \<and> (if path_exists w (trace s) (joinpath w (base_dir self) (name repo))
       then (Remote_mismatch (name repo) \<in> set (task_output w self repo s))
            = (\<not> remote_matches w (trace s) (joinpath w (base_dir self) (name repo))
                   (spec_remote_url (repo_org self) (name repo)))
       else task_actions w self repo s =
              [clone_call (spec_remote_url (repo_org self) (name repo))
                 (joinpath w (base_dir self) (name repo))])"
proof -
  have a: "spec_remote_url org n = spec_remote_url org' n \<longleftrightarrow> org = org'"
    by (simp add: spec_remote_url_def)
  have b: "spec_remote_url org n = spec_remote_url org n' \<longleftrightarrow> n = n'"
    by (simp add: spec_remote_url_def)
  have c: "path_exists w (trace s) (joinpath w (base_dir self) (name repo)) \<Longrightarrow>
       (Remote_mismatch (name repo) \<in> set (task_output w self repo s))
            = (\<not> remote_matches w (trace s) (joinpath w (base_dir self) (name repo))
                   (spec_remote_url (repo_org self) (name repo)))"
    by (cases "remote_matches w (trace s) (joinpath w (base_dir self) (name repo))
                   (spec_remote_url (repo_org self) (name repo))")
       (simp_all add: task_output_def process_repository_update process_repository_mismatch
          split: option.splits)
  have d: "\<not> path_exists w (trace s) (joinpath w (base_dir self) (name repo)) \<Longrightarrow>
       task_actions w self repo s =
              [clone_call (spec_remote_url (repo_org self) (name repo))
                 (joinpath w (base_dir self) (name repo))]"
    by (simp add: task_actions_def process_repository_absent split: sum.splits)
  have e: "if path_exists w (trace s) (joinpath w (base_dir self) (name repo))
       then (Remote_mismatch (name repo) \<in> set (task_output w self repo s))
            = (\<not> remote_matches w (trace s) (joinpath w (base_dir self) (name repo))
                   (spec_remote_url (repo_org self) (name repo)))
       else task_actions w self repo s =
              [clone_call (spec_remote_url (repo_org self) (name repo))
                 (joinpath w (base_dir self) (name repo))]"
    using c d by (cases "path_exists w (trace s) (joinpath w (base_dir self) (name repo))") simp_all
  have f: "spec_remote_url org n = ''git@github.com:'' @ org @ ''/'' @ n @ ''.git''"
    by (simp add: spec_remote_url_def)
  show ?thesis
    by (rule conjI, rule f, rule conjI, rule a, rule conjI, rule b, rule e)
qed

theorem expected_remote_url_witness:
  "spec_remote_url ''HappyPathway'' ''terraform-gcp-storage'' =
     ''git@github.com:HappyPathway/terraform-gcp-storage.git''
   \<and> spec_remote_url ''HappyPathway'' ''terraform-gcp-storage'' \<noteq>
     spec_remote_url ''HappyPathway'' ''terraform-gcp-compute''
   \<and> task_actions fresh_world (sample_initializer fresh_world) storage start =
       [Exec [''git'', ''clone'', ''git@github.com:HappyPathway/terraform-gcp-storage.git'',
              ''/work/terraform-gcp-storage''] None]"
  using expected_remote_url
    [of "''HappyPathway''" "''terraform-gcp-storage''" "''HappyPathway''"
        "''terraform-gcp-compute''" fresh_world start "sample_initializer fresh_world" storage]
  by (simp add: clone_call_def spec_remote_url_def)

subsection \<open>The target path\<close>

lemma action_target_calls [simp]:
  "action_target (get_url_call p) = Some p"
  "action_target (fetch_call p) = Some p"
  "action_target (branch_call p) = Some p"
  "action_target (pull_call p b) = Some p"
  "action_target (clone_call u p) = Some p"
  by (simp_all add: get_url_call_def fetch_call_def branch_call_def pull_call_def
      clone_call_def)

lemma update_calls_target:
  "a \<in> set (update_calls w h p) \<Longrightarrow> action_target a = Some p"
  by (auto simp: update_calls_def split: sum.splits)

lemma task_actions_target:
  assumes "a \<in> set (task_actions w self repo s)"
  shows "action_target a = Some (joinpath w (base_dir self) (name repo))"
proof (cases "path_exists w (trace s) (joinpath w (base_dir self) (name repo))")
  case False
  with assms show ?thesis
    by (auto simp: task_actions_def process_repository_absent split: sum.splits)
next
  case True
  show ?thesis
  proof (cases "remote_matches w (trace s) (joinpath w (base_dir self) (name repo))
                  (spec_remote_url (repo_org self) (name repo))")
    case m: True
    from assms show ?thesis
      by (auto simp: task_of_emit(1) [OF process_repository_update [OF True m]]
          dest: update_calls_target)
  next
    case m: False
    from assms show ?thesis
      by (simp add: task_of_emit(1) [OF process_repository_mismatch [OF True m]])
  qed
qed

lemma gather_targets:
  "\<exists>as ms. gather w self repos s = emit as ms s
      \<and> (\<forall>a \<in> set as. \<exists>r \<in> set repos.
            action_target a = Some (joinpath w (base_dir self) (name r)))"
proof (induction repos arbitrary: s)
  case Nil
  show ?case
    by (rule exI [of _ "[]"], rule exI [of _ "[]"]) (simp add: emit_def)
next
  case (Cons r repos)
  obtain as ms where g: "gather w self repos (process_repository w self r s) =
      emit as ms (process_repository w self r s)"
    and t: "\<forall>a \<in> set as. \<exists>r \<in> set repos.
            action_target a = Some (joinpath w (base_dir self) (name r))"
    using Cons.IH by blast
  have "gather w self (r # repos) s =
      emit (task_actions w self r s @ as) (task_output w self r s @ ms) s"
    using g by (simp add: process_repository_emit [of w self r s])
  moreover have "\<forall>a \<in> set (task_actions w self r s @ as). \<exists>r' \<in> set (r # repos).
            action_target a = Some (joinpath w (base_dir self) (name r'))"
    using t task_actions_target [of _ w self r s] by auto
  ultimately show ?case by (intro exI conjI)
qed

lemma run_targets:
  assumes "a \<in> set (drop (length (trace s)) (trace (snd (run w self s))))"
  shows "a = Makedirs (base_dir self) \<or> a = ssh_call
       \<or> (\<exists>r \<in> set (repositories self).
             action_target a = Some (joinpath w (base_dir self) (name r)))"
proof -
  let ?s3 = "emit [Makedirs (base_dir self)]
               [Initializing_project (project_name self), Verifying_access] s"
  obtain vs where v: "verify_git_ssh w ?s3 = (fst (verify_git_ssh w ?s3), emit [ssh_call] vs ?s3)"
    using verify_git_ssh_emit by blast
  show ?thesis
  proof (cases "fst (verify_git_ssh w ?s3)")
    case False
    with v have "verify_git_ssh w ?s3 = (False, emit [ssh_call] vs ?s3)" by simp
    then have "trace (snd (run w self s)) = trace s @ [Makedirs (base_dir self), ssh_call]"
      by (simp add: run_def Let_def print_emit makedirs_emit)
    with assms show ?thesis by auto
  next
    case True
    with v have e: "verify_git_ssh w ?s3 = (True, emit [ssh_call] vs ?s3)" by simp
    obtain as ms where g: "gather w self (repositories self)
          (print Access_verified (emit [ssh_call] vs ?s3)) =
        emit as ms (print Access_verified (emit [ssh_call] vs ?s3))"
      and t: "\<forall>a \<in> set as. \<exists>r \<in> set (repositories self).
            action_target a = Some (joinpath w (base_dir self) (name r))"
      using gather_targets by blast
    from e g have "trace (snd (run w self s)) =
        trace s @ [Makedirs (base_dir self), ssh_call] @ as"
      by (simp add: run_def Let_def print_emit makedirs_emit)
    with assms t show ?thesis by auto
  qed
qed

text \<open>
  C10. The base directory is set once, by the constructor, to the resolved path
  \<^verbatim>\<open>..\<close>, the parent of the working directory, and no function changes it. Every call a
  task makes works on the base directory joined with the name of its descriptor: it is the
  working directory of the remote check and of the three steps of an update, and the
  directory given to the clone. A whole run creates the base directory, probes SSH, and
  otherwise only makes calls on such paths.
\<close>

theorem target_path_is_base_joined_name:
  "base_dir (ProjectInitializer w pn org repos) = resolve w ''..''
   \<and> (\<forall>a \<in> set (task_actions w self repo s).
         action_target a = Some (joinpath w (base_dir self) (name repo)))
   \<and> (\<forall>a \<in> set (drop (length (trace s)) (trace (snd (run w self s)))).
         a = Makedirs (base_dir self) \<or> a = ssh_call
         \<or> (\<exists>r \<in> set (repositories self).
               action_target a = Some (joinpath w (base_dir self) (name r))))"
proof (intro conjI ballI)
  show "base_dir (ProjectInitializer w pn org repos) = resolve w ''..''"
    by (simp add: ProjectInitializer_def)
next
  fix a assume "a \<in> set (task_actions w self repo s)"
  then show "action_target a = Some (joinpath w (base_dir self) (name repo))"
    by (rule task_actions_target)
next
  fix a assume "a \<in> set (drop (length (trace s)) (trace (snd (run w self s))))"
  then show "a = Makedirs (base_dir self) \<or> a = ssh_call
       \<or> (\<exists>r \<in> set (repositories self).
             action_target a = Some (joinpath w (base_dir self) (name r)))"
    by (rule run_targets)
qed

theorem target_path_is_base_joined_name_witness:
  "base_dir (sample_initializer cloned_world) = ''/work''
   \<and> task_actions cloned_world (sample_initializer cloned_world) storage start =
       [Exec [''git'', ''remote'', ''get-url'', ''origin''] (Some ''/work/terraform-gcp-storage''),
        Exec [''git'', ''fetch''] (Some ''/work/terraform-gcp-storage''),
        Exec [''git'', ''rev-parse'', ''--abbrev-ref'', ''HEAD'']
          (Some ''/work/terraform-gcp-storage''),
        Exec [''git'', ''pull'', ''origin'', ''main''] (Some ''/work/terraform-gcp-storage'')]
   \<and> map action_target
        (task_actions cloned_world (sample_initializer cloned_world) storage start) =
       [Some ''/work/terraform-gcp-storage'', Some ''/work/terraform-gcp-storage'',
        Some ''/work/terraform-gcp-storage'', Some ''/work/terraform-gcp-storage'']"
proof -
  have e: "path_exists cloned_world (trace start)
             (joinpath cloned_world (base_dir (sample_initializer cloned_world)) (name storage))"
    by simp
  have m: "remote_matches cloned_world (trace start)
             (joinpath cloned_world (base_dir (sample_initializer cloned_world)) (name storage))
             (spec_remote_url (repo_org (sample_initializer cloned_world)) (name storage))"
    by (simp add: remote_matches_def finished_def spec_remote_url_def)
  have acts: "task_actions cloned_world (sample_initializer cloned_world) storage start =
       [Exec [''git'', ''remote'', ''get-url'', ''origin''] (Some ''/work/terraform-gcp-storage''),
        Exec [''git'', ''fetch''] (Some ''/work/terraform-gcp-storage''),
        Exec [''git'', ''rev-parse'', ''--abbrev-ref'', ''HEAD'']
          (Some ''/work/terraform-gcp-storage''),
        Exec [''git'', ''pull'', ''origin'', ''main''] (Some ''/work/terraform-gcp-storage'')]"
    by (simp add: task_of_emit(1) [OF process_repository_update [OF e m]] update_calls_def
        finished_def get_url_call_def fetch_call_def branch_call_def pull_call_def)
  have "\<forall>a \<in> set (task_actions cloned_world (sample_initializer cloned_world) storage start).
         action_target a = Some ''/work/terraform-gcp-storage''"
    using target_path_is_base_joined_name
      [of cloned_world "''gcp-kubernetes''" "''HappyPathway''" "[storage]"
          "sample_initializer cloned_world" storage start]
    by simp
  then have "map action_target
        (task_actions cloned_world (sample_initializer cloned_world) storage start) =
       [Some ''/work/terraform-gcp-storage'', Some ''/work/terraform-gcp-storage'',
        Some ''/work/terraform-gcp-storage'', Some ''/work/terraform-gcp-storage'']"
    by (simp add: acts)
  with acts show ?thesis by simp
qed

subsection \<open>At most five tasks in flight\<close>

lemma filter_update_count:
  assumes "i < length xs"
  shows "length (filter P (xs[i := y])) + (if P (xs ! i) then 1 else 0) =
         length (filter P xs) + (if P y then 1 else 0)"
  using assms
proof (induction xs arbitrary: i)
  case Nil
  then show ?case by simp
next
  case (Cons x xs)
  then show ?case by (cases i) auto
qed

lemma enter_holding: "holding (fst (enter w self repo s))"
  by (simp add: enter_def Let_def holding_def)

lemma resume_not_waiting:
  "c \<noteq> Waiting \<Longrightarrow> fst (resume w self repo c s) \<noteq> Waiting"
  by (cases c) (auto simp: Let_def split: prod.splits sum.splits bool.splits)

lemma trace_enter: "trace (snd (enter w self repo s)) = trace s"
  by (simp add: enter_def Let_def print_emit)

lemma advance_waiting:
  assumes "advance w self i l = Some l'" and "tasks l ! i = Waiting"
  shows "permits l \<noteq> 0
       \<and> l' = \<lparr>permits = permits l - 1,
               tasks = (tasks l)[i := fst (enter w self (repositories self ! i) (shared l))],
               shared = snd (enter w self (repositories self ! i) (shared l))\<rparr>"
  using assms by (auto simp: advance_def split: if_splits prod.splits)

lemma advance_holding:
  assumes "advance w self i l = Some l'" and "tasks l ! i \<noteq> Waiting"
  shows "holding (tasks l ! i)
       \<and> l' = \<lparr>permits =
                 (if fst (resume w self (repositories self ! i) (tasks l ! i) (shared l)) = Done
                  then permits l + 1 else permits l),
               tasks = (tasks l)
                 [i := fst (resume w self (repositories self ! i) (tasks l ! i) (shared l))],
               shared = snd (resume w self (repositories self ! i) (tasks l ! i) (shared l))\<rparr>"
  using assms
  by (cases "tasks l ! i")
     (auto simp: advance_def holding_def simp del: resume.simps split: if_splits prod.splits)

lemma advance_invariant:
  assumes "advance w self i l = Some l'"
  shows "permits l' + in_flight l' = permits l + in_flight l"
proof -
  from assms have i: "i < length (tasks l)"
    by (simp add: advance_def split: if_splits)
  show ?thesis
  proof (cases "tasks l ! i = Waiting")
    case True
    let ?c = "fst (enter w self (repositories self ! i) (shared l))"
    from advance_waiting [OF assms True]
    have p: "permits l \<noteq> 0" and l': "permits l' = permits l - 1" "tasks l' = (tasks l)[i := ?c]"
      by simp_all
    from filter_update_count [OF i, of holding ?c] True enter_holding [of w self _ "shared l"]
    have "length (filter holding ((tasks l)[i := ?c])) = length (filter holding (tasks l)) + 1"
      by (simp add: holding_def)
    with p l' show ?thesis by (simp add: in_flight_def)
  next
    case False
    let ?c = "fst (resume w self (repositories self ! i) (tasks l ! i) (shared l))"
    from advance_holding [OF assms False]
    have h: "holding (tasks l ! i)"
      and l': "permits l' = (if ?c = Done then permits l + 1 else permits l)"
        "tasks l' = (tasks l)[i := ?c]"
      by simp_all
    have c: "?c \<noteq> Waiting" using False by (rule resume_not_waiting)
    from filter_update_count [OF i, of holding ?c] h
    have "length (filter holding ((tasks l)[i := ?c])) + 1 =
          length (filter holding (tasks l)) + (if holding ?c then 1 else 0)"
      by simp
    with l' c show ?thesis by (auto simp: in_flight_def holding_def)
  qed
qed

lemma schedule_invariant:
  "schedule w self js l = Some l' \<Longrightarrow> permits l' + in_flight l' = permits l + in_flight l"
proof (induction js arbitrary: l)
  case Nil
  then show ?case by simp
next
  case (Cons i js)
  then obtain l1 where a: "advance w self i l = Some l1" and s: "schedule w self js l1 = Some l'"
    by (auto split: option.splits)
  from Cons.IH [OF s] advance_invariant [OF a] show ?case by simp
qed

lemma in_flight_launch: "in_flight (launch self s) = 0"
  by (simp add: in_flight_def launch_def holding_def)

lemma advance_call_holding:
  assumes "advance w self i l = Some l'" and "trace (shared l') \<noteq> trace (shared l)"
  shows "holding (tasks l ! i)"
proof (cases "tasks l ! i = Waiting")
  case True
  from advance_waiting [OF assms(1) True] have "trace (shared l') = trace (shared l)"
    by (simp add: trace_enter)
  with assms(2) show ?thesis by simp
next
  case False
  from advance_holding [OF assms(1) False] show ?thesis by simp
qed

text \<open>
  The steps agree with the function: a task that enters and is then resumed until its
  end, nothing running in between, does what \<^verbatim>\<open>process_repository\<close> does.
\<close>

lemma drive_process_repository:
  "drive w self repo 4 (enter w self repo s) = (Done, process_repository w self repo s)"
  by (simp add: eval_nat_numeral enter_def process_repository_def Let_def
      update_repository_def update_repository_try_def
      split: prod.splits sum.splits bool.splits)

text \<open>
  C4. In every state the event loop can reach from the launch of the tasks, whatever the
  number of repositories and the order in which tasks are resumed, the tasks that hold the
  semaphore and the value of the semaphore add up to its initial value, which the
  constructor sets to 5: at most five tasks are inside their subprocess sequence. A step
  that makes a subprocess call is a step of a task that holds the semaphore, and a task
  gives it back only on reaching its end.
\<close>

theorem at_most_five_in_flight:
  assumes "schedule w self js (launch self s) = Some l"
  shows "in_flight l \<le> semaphore self
       \<and> permits l + in_flight l = semaphore self
       \<and> semaphore (ProjectInitializer w pn org repos) = 5
       \<and> (\<forall>i l'. advance w self i l = Some l' \<and> trace (shared l') \<noteq> trace (shared l)
                \<longrightarrow> holding (tasks l ! i))"
proof -
  from schedule_invariant [OF assms]
  have "permits l + in_flight l = semaphore self"
    by (simp add: in_flight_launch) (simp add: launch_def)
  moreover have "semaphore (ProjectInitializer w pn org repos) = 5"
    by (simp add: ProjectInitializer_def)
  ultimately show ?thesis
    using advance_call_holding [of w self _ l] by auto
qed

theorem at_most_five_in_flight_witness:
  "schedule fresh_world (config_initializer fresh_world) [0, 1, 2, 3, 4]
     (launch (config_initializer fresh_world) start) = Some five_cloning
   \<and> semaphore (config_initializer fresh_world) = 5
   \<and> in_flight five_cloning = 5
   \<and> in_flight five_cloning \<le> semaphore (config_initializer fresh_world)
   \<and> advance fresh_world (config_initializer fresh_world) 5 five_cloning = None"
proof -
  have e: "schedule fresh_world (config_initializer fresh_world) [0, 1, 2, 3, 4]
     (launch (config_initializer fresh_world) start) = Some five_cloning"
    by code_simp
  have n: "in_flight five_cloning = 5"
    by code_simp
  have b: "advance fresh_world (config_initializer fresh_world) 5 five_cloning = None"
    by code_simp
  have c: "semaphore (config_initializer fresh_world) = 5"
    by (simp add: config_initializer_def ProjectInitializer_def)
  from at_most_five_in_flight
    [OF e, where pn = "''gcp-kubernetes''" and org = "''HappyPathway''"
       and repos = config_repositories]
  have "in_flight five_cloning \<le> semaphore (config_initializer fresh_world)"
    by simp
  with e n b c show ?thesis by simp
qed

end
